theory Spec2Isabelle
  imports
    Complex_Main
    "HOL-Library.Char_ord"
    "HOL-Library.List_Lexorder"
    "HOL-Library.Product_Lexorder"
begin

section \<open>Streaming history: the data model of \<^verbatim>\<open>data_loader.py\<close>\<close>

text \<open>
  A pandas DataFrame is a list of rows, in row order; a column is a record field.
  A cell that pandas holds as null (None, NaN) is \<open>None\<close>. Strings are ordered as
  Python orders them: character by character, a proper prefix first.
\<close>

text \<open>The exceptions that leave the functions modelled here.\<close>

datatype error =
    ParseError
  | KeyError string
  | UnicodeDecodeError
  | AttributeError
  | TypeError
  | OSError

text \<open>
  A pandas Timestamp, by the attributes the loader reads from it (\<^verbatim>\<open>.dt.year\<close>,
  \<^verbatim>\<open>.dt.hour\<close>, \<^verbatim>\<open>.dt.dayofweek\<close>, ...) and its position on the time line, which
  orders timestamps.
\<close>

record timestamp =
  dt_year :: int
  dt_month :: nat
  dt_day :: nat
  dt_hour :: nat
  dt_dayofweek :: nat
  dt_nanos :: int

text \<open>
  The \<^verbatim>\<open>ts\<close> cell of a raw record, by what \<^verbatim>\<open>pd.to_datetime\<close> makes of it: a null
  becomes NaT, a string it cannot parse makes it raise, any other string a Timestamp.
\<close>

datatype ts_cell = Null_ts | Unparseable | Parses timestamp

text \<open>
  One object of a \<^verbatim>\<open>Streaming_History_Audio_*.json\<close> file, with the keys of the
  export; a JSON null is \<open>None\<close>.
\<close>

record raw_event =
  raw_ts :: ts_cell
  raw_ms_played :: int
  master_metadata_track_name :: "string option"
  master_metadata_album_artist_name :: "string option"
  master_metadata_album_album_name :: "string option"
  raw_episode_name :: "string option"
  raw_audiobook_title :: "string option"
  raw_spotify_track_uri :: "string option"

text \<open>
  A row of the table the queries take, the PlayEvent of the specification: a loaded row
  with its timestamp. \<open>minutes_played\<close> holds the value of a float64.
\<close>

record play_event =
  ts :: timestamp
  year :: int
  month :: nat
  day :: nat
  hour :: nat
  day_of_week :: nat
  ms_played :: int
  minutes_played :: rat
  track :: "string option"
  artist :: "string option"
  album :: "string option"
  episode_name :: "string option"
  audiobook_title :: "string option"
  spotify_track_uri :: "string option"

subsection \<open>\<^verbatim>\<open>preprocess_data\<close>\<close>

text \<open>
  A row of the table the loader builds: the raw columns, three of them renamed, and the
  derived ones. The columns derived from a NaT are null. \<open>ld_minutes_played\<close> is a
  float64, by its value.
\<close>

record loaded_event =
  ld_ts :: "timestamp option"
  ld_year :: "int option"
  ld_month :: "nat option"
  ld_day :: "nat option"
  ld_hour :: "nat option"
  ld_day_of_week :: "nat option"
  ld_ms_played :: int
  ld_minutes_played :: rat
  ld_track :: "string option"
  ld_artist :: "string option"
  ld_album :: "string option"
  ld_episode_name :: "string option"
  ld_audiobook_title :: "string option"
  ld_spotify_track_uri :: "string option"

text \<open>
  \<^verbatim>\<open>df["ms_played"] / 60000\<close> is a float64 division, which rounds: the division is
  the parameter \<open>true_divide\<close>, and \<open>exact_divide\<close> is the quotient where it is a
  float64 itself.
\<close>

definition exact_divide :: "int \<Rightarrow> int \<Rightarrow> rat" where
  "exact_divide a b = of_int a / of_int b"

definition derive_columns :: "(int \<Rightarrow> int \<Rightarrow> rat) \<Rightarrow> timestamp option \<Rightarrow> raw_event \<Rightarrow> loaded_event" where
  "derive_columns true_divide t r =
     \<lparr> ld_ts = t,
       ld_year = map_option dt_year t,
       ld_month = map_option dt_month t,
       ld_day = map_option dt_day t,
       ld_hour = map_option dt_hour t,
       ld_day_of_week = map_option dt_dayofweek t,
       ld_ms_played = raw_ms_played r,
       ld_minutes_played = true_divide (raw_ms_played r) 60000,
       ld_track = master_metadata_track_name r,
       ld_artist = master_metadata_album_artist_name r,
       ld_album = master_metadata_album_album_name r,
       ld_episode_name = raw_episode_name r,
       ld_audiobook_title = raw_audiobook_title r,
       ld_spotify_track_uri = raw_spotify_track_uri r \<rparr>"

text \<open>
  \<^verbatim>\<open>pd.to_datetime(df["ts"])\<close>: one unparseable cell fails the whole column; a null
  cell gives NaT, here \<open>None\<close>.
\<close>

fun to_datetime :: "raw_event list \<Rightarrow> error + (timestamp option \<times> raw_event) list" where
  "to_datetime [] = Inr []"
| "to_datetime (r # rs) =
     (case raw_ts r of
        Unparseable \<Rightarrow> Inl ParseError
      | Null_ts \<Rightarrow>
          (case to_datetime rs of
             Inl e \<Rightarrow> Inl e
           | Inr trs \<Rightarrow> Inr ((None, r) # trs))
      | Parses t \<Rightarrow>
          (case to_datetime rs of
             Inl e \<Rightarrow> Inl e
           | Inr trs \<Rightarrow> Inr ((Some t, r) # trs)))"

definition is_music :: "loaded_event \<Rightarrow> bool" where
  "is_music e \<longleftrightarrow> ld_track e \<noteq> None \<and> ld_episode_name e = None \<and> ld_audiobook_title e = None"

text \<open>
  The table comes from \<^verbatim>\<open>pd.DataFrame(all_records)\<close>: built from no record it has no
  column, and \<^verbatim>\<open>df["ts"]\<close> raises KeyError. Every record of the export carries every
  key, so a table with a row has every column.
\<close>

definition preprocess_data :: "(int \<Rightarrow> int \<Rightarrow> rat) \<Rightarrow> raw_event list \<Rightarrow> error + loaded_event list" where
  "preprocess_data true_divide df =
     (if df = [] then Inl (KeyError ''ts'')
      else
        case to_datetime df of
          Inl e \<Rightarrow> Inl e
        | Inr trs \<Rightarrow> Inr (filter is_music (map (\<lambda>(t, r). derive_columns true_divide t r) trs)))"

section \<open>Playlists\<close>

definition EXCLUDED_PLAYLISTS :: "string list" where
  "EXCLUDED_PLAYLISTS = [''SD/TB - Thanks 4 Sharing'', ''SD/TB - Client Confirmed Bangers'']"

text \<open>
  The playlist export. An item's \<open>item_track\<close> is \<open>None\<close> when \<^verbatim>\<open>item.get("track")\<close> is
  falsy (missing, null or an empty object).
\<close>

record track_obj =
  trackName :: "string option"
  artistName :: "string option"
  albumName :: "string option"
  trackUri :: "string option"

record playlist_item =
  item_track :: "track_obj option"

record playlist_obj =
  playlist_name :: "string option"
  playlist_items :: "playlist_item list"

record playlist_entry =
  pl_playlist :: string
  pl_track :: "string option"
  pl_artist :: "string option"
  pl_album :: "string option"
  pl_uri :: "string option"

definition playlist_rows :: "playlist_obj \<Rightarrow> playlist_entry list" where
  "playlist_rows p =
     (let name = (case playlist_name p of None \<Rightarrow> ''Unknown'' | Some n \<Rightarrow> n)
      in if name \<in> set EXCLUDED_PLAYLISTS then []
         else List.map_filter
                (\<lambda>i. case item_track i of
                        None \<Rightarrow> None
                      | Some t \<Rightarrow>
                          Some \<lparr> pl_playlist = name,
                                 pl_track = trackName t,
                                 pl_artist = artistName t,
                                 pl_album = albumName t,
                                 pl_uri = trackUri t \<rparr>)
                (playlist_items p))"

definition get_all_playlist_tracks :: "playlist_obj list \<Rightarrow> playlist_entry list" where
  "get_all_playlist_tracks playlists = concat (map playlist_rows playlists)"

subsection \<open>\<^verbatim>\<open>get_playlist_overlap\<close>\<close>

text \<open>
  The two shared collections are built from Python sets, whose order is not specified:
  they are sets here. The empty dictionary returned for an empty table is \<open>None\<close>.
\<close>

record overlap =
  playlist1 :: string
  playlist2 :: string
  p1_track_count :: nat
  p2_track_count :: nat
  p1_artist_count :: nat
  p2_artist_count :: nat
  shared_artists :: "string option set"
  shared_artist_count :: nat
  shared_tracks :: "(string option \<times> string option) set"
  shared_track_count :: nat

definition get_playlist_overlap :: "playlist_entry list \<Rightarrow> string \<Rightarrow> string \<Rightarrow> overlap option" where
  "get_playlist_overlap df a b =
     (if df = [] then None
      else
        let p1 = filter (\<lambda>e. pl_playlist e = a) df;
            p2 = filter (\<lambda>e. pl_playlist e = b) df;
            p1_artists = set (map pl_artist p1);
            p2_artists = set (map pl_artist p2);
            shared_a = p1_artists \<inter> p2_artists;
            p1_tracks = set (map (\<lambda>e. (pl_track e, pl_artist e)) p1);
            p2_tracks = set (map (\<lambda>e. (pl_track e, pl_artist e)) p2);
            shared_t = p1_tracks \<inter> p2_tracks
        in Some \<lparr> playlist1 = a,
                  playlist2 = b,
                  p1_track_count = length p1,
                  p2_track_count = length p2,
                  p1_artist_count = card p1_artists,
                  p2_artist_count = card p2_artists,
                  shared_artists = shared_a,
                  shared_artist_count = card shared_a,
                  shared_tracks = shared_t,
                  shared_track_count = card shared_t \<rparr>)"

section \<open>Aggregation\<close>

subsection \<open>The pandas operations the queries are built from\<close>

text \<open>
  \<^verbatim>\<open>groupby(keys)\<close> with its defaults: a row with a null key cell belongs to no
  group, and the groups come out in ascending key order.
\<close>

definition group_keys :: "('r \<Rightarrow> 'k::linorder option) \<Rightarrow> 'r list \<Rightarrow> 'k list" where
  "group_keys key df = sort (remdups (List.map_filter key df))"

definition group_rows :: "('r \<Rightarrow> 'k option) \<Rightarrow> 'r list \<Rightarrow> 'k \<Rightarrow> 'r list" where
  "group_rows key df k = filter (\<lambda>r. key r = Some k) df"

text \<open>\<^verbatim>\<open>head(n)\<close>: the first \<open>n\<close> rows; for a negative \<open>n\<close>, all rows but the last \<open>-n\<close>.\<close>

definition head :: "int \<Rightarrow> 'a list \<Rightarrow> 'a list" where
  "head n xs = (if 0 \<le> n then take (nat n) xs else take (length xs - nat (- n)) xs)"

text \<open>
  \<^verbatim>\<open>sort_values(col, ascending=False)\<close> with the default sort kind. pandas reverses
  the column, asks numpy for the indices that sort it ascending, and reverses the
  rows so selected. The default kind is quicksort, which is not stable: numpy promises a
  sorting permutation and no more, and what it does with equal values depends on its
  version and on the machine. So the argsort is a parameter, and \<open>valid_argsort\<close> is
  all the queries may rely on. \<open>stable_argsort\<close> and \<open>antistable_argsort\<close> are two
  valid argsorts, for running the model on a concrete table: the first leaves equal
  values in their order, the second reverses them. Neither is claimed to be numpy's.
\<close>

type_synonym 'v argsort = "'v list \<Rightarrow> nat list"

definition valid_argsort :: "('v::linorder) argsort \<Rightarrow> bool" where
  "valid_argsort a \<longleftrightarrow>
     (\<forall>xs. distinct (a xs) \<and> set (a xs) = {0..<length xs} \<and> sorted (map (\<lambda>i. xs ! i) (a xs)))"

definition stable_argsort :: "('v::linorder) argsort" where
  "stable_argsort xs = sort_key (\<lambda>i. xs ! i) [0..<length xs]"

definition antistable_argsort :: "('v::linorder) argsort" where
  "antistable_argsort xs = sort_key (\<lambda>i. xs ! i) (rev [0..<length xs])"

definition sort_values_desc :: "('v::linorder) argsort \<Rightarrow> ('r \<Rightarrow> 'v) \<Rightarrow> 'r list \<Rightarrow> 'r list" where
  "sort_values_desc argsort col df =
     (let rdf = rev df in rev (map (\<lambda>i. rdf ! i) (argsort (map col rdf))))"

subsection \<open>Top artists and top tracks\<close>

text \<open>
  The aggregate of one group. \<open>total_minutes\<close> is a float64, by its value: the sum of
  a group's \<open>minutes_played\<close> rounds, and the order in which pandas adds is its own, so
  the sum is the parameter \<open>float_sum\<close>. \<open>sum_list\<close> is that sum where nothing is
  rounded.
\<close>

record 'k stats =
  group_key :: 'k
  play_count :: nat
  total_minutes :: rat

definition groupby_agg ::
  "(rat list \<Rightarrow> rat) \<Rightarrow> (play_event \<Rightarrow> 'k::linorder option) \<Rightarrow> play_event list \<Rightarrow> 'k stats list" where
  "groupby_agg float_sum key df =
     map (\<lambda>k. \<lparr> group_key = k,
                play_count = length (group_rows key df k),
                total_minutes = float_sum (map minutes_played (group_rows key df k)) \<rparr>)
         (group_keys key df)"

definition by_artist :: "play_event \<Rightarrow> string option" where
  "by_artist e = artist e"

definition by_track_artist :: "play_event \<Rightarrow> (string \<times> string) option" where
  "by_track_artist e =
     (case track e of
        None \<Rightarrow> None
      | Some t \<Rightarrow> (case artist e of None \<Rightarrow> None | Some a \<Rightarrow> Some (t, a)))"

definition by_track_artist_album :: "play_event \<Rightarrow> (string \<times> string \<times> string) option" where
  "by_track_artist_album e =
     (case by_track_artist e of
        None \<Rightarrow> None
      | Some (t, a) \<Rightarrow> (case album e of None \<Rightarrow> None | Some al \<Rightarrow> Some (t, a, al)))"

definition filter_year :: "int option \<Rightarrow> play_event list \<Rightarrow> play_event list" where
  "filter_year y df = (case y of None \<Rightarrow> df | Some v \<Rightarrow> filter (\<lambda>e. year e = v) df)"

definition sort_col :: "string \<Rightarrow> 'k stats \<Rightarrow> rat" where
  "sort_col sort_by = (if sort_by = ''plays'' then (\<lambda>s. of_nat (play_count s)) else total_minutes)"

definition get_top_artists ::
  "rat argsort \<Rightarrow> (rat list \<Rightarrow> rat) \<Rightarrow> play_event list \<Rightarrow> int option \<Rightarrow> int \<Rightarrow> string
     \<Rightarrow> string stats list" where
  "get_top_artists argsort float_sum df y limit sort_by =
     head limit
       (sort_values_desc argsort (sort_col sort_by)
          (groupby_agg float_sum by_artist (filter_year y df)))"

definition get_top_tracks ::
  "rat argsort \<Rightarrow> (rat list \<Rightarrow> rat) \<Rightarrow> play_event list \<Rightarrow> int option \<Rightarrow> int \<Rightarrow> string
     \<Rightarrow> (string \<times> string) stats list" where
  "get_top_tracks argsort float_sum df y limit sort_by =
     head limit
       (sort_values_desc argsort (sort_col sort_by)
          (groupby_agg float_sum by_track_artist (filter_year y df)))"

text \<open>
  The order the specification asks of rows with equal metric values: the order in which
  their keys first occur in the input table.
\<close>

fun first_index :: "'a list \<Rightarrow> 'a \<Rightarrow> nat" where
  "first_index [] k = 0"
| "first_index (x # xs) k = (if x = k then 0 else Suc (first_index xs k))"

definition ties_in_first_occurrence_order ::
  "(play_event \<Rightarrow> 'k option) \<Rightarrow> play_event list \<Rightarrow> ('k stats \<Rightarrow> rat) \<Rightarrow> 'k stats list \<Rightarrow> bool" where
  "ties_in_first_occurrence_order key df col res \<longleftrightarrow>
     sorted_wrt
       (\<lambda>r s. col r = col s \<longrightarrow>
          first_index (map key df) (Some (group_key r)) < first_index (map key df) (Some (group_key s)))
       res"

subsection \<open>\<^verbatim>\<open>get_heatmap_data\<close>\<close>

text \<open>
  A pivot table: its row labels, its column labels and its cells, row by row. A cell
  of \<^verbatim>\<open>pivot\<close> with no entry is NaN, which \<^verbatim>\<open>fillna(0)\<close> turns into 0.
\<close>

record pivot =
  pv_index :: "nat list"
  pv_columns :: "nat list"
  pv_values :: "nat list list"

definition groupby_size :: "('r \<Rightarrow> 'k::linorder option) \<Rightarrow> 'r list \<Rightarrow> ('k \<times> nat) list" where
  "groupby_size key df = map (\<lambda>k. (k, length (group_rows key df k))) (group_keys key df)"

definition fillna0 :: "nat option \<Rightarrow> nat" where
  "fillna0 c = (case c of None \<Rightarrow> 0 | Some n \<Rightarrow> n)"

definition get_heatmap_data :: "play_event list \<Rightarrow> pivot" where
  "get_heatmap_data df =
     (let heatmap = groupby_size (\<lambda>e. Some (day_of_week e, hour e)) df;
          idx = sort (remdups (map (\<lambda>((d, h), n). d) heatmap));
          cols = sort (remdups (map (\<lambda>((d, h), n). h) heatmap))
      in \<lparr> pv_index = idx,
           pv_columns = cols,
           pv_values = map (\<lambda>d. map (\<lambda>h. fillna0 (map_of heatmap (d, h))) cols) idx \<rparr>)"

text \<open>What the specification asks for: 7 rows of 24 cells, whatever the events.\<close>

definition dense_7x24 :: "pivot \<Rightarrow> bool" where
  "dense_7x24 p \<longleftrightarrow>
     pv_index p = [0..<7] \<and> pv_columns p = [0..<24]
     \<and> length (pv_values p) = 7 \<and> list_all (\<lambda>row. length row = 24) (pv_values p)"

subsection \<open>One-hit wonders\<close>

text \<open>
  The playlist table is a module-level cache in the source; here it is an argument.
  Both queries build the same set of (track, artist) pairs from it.
\<close>

definition playlist_set :: "playlist_entry list \<Rightarrow> (string option \<times> string option) set" where
  "playlist_set playlist_tracks =
     (if playlist_tracks = [] then {}
      else set (map (\<lambda>e. (pl_track e, pl_artist e)) playlist_tracks))"

record one_hit_row =
  oh_track :: string
  oh_artist :: string
  oh_album :: string
  oh_play_count :: nat
  played_on :: timestamp
  oh_ms_played :: int
  on_playlist :: bool

text \<open>
  \<open>get_one_hit_wonders\<close> groups by track, artist and album. \<open>played_on\<close> is the
  timestamp of the first row of the group. The playlist mark is computed row by row
  (\<^verbatim>\<open>apply(..., axis=1)\<close>). Where no row is left to mark, \<^verbatim>\<open>apply\<close> returns an
  empty frame and the assignment of the mark raises in the source; the model gives the
  empty table there. The same holds of \<open>get_one_hit_wonder_stats\<close> when no group
  reaches 120000 ms. The tables on which the two functions are evaluated below leave
  rows to mark.
\<close>

definition one_hit_track_counts :: "play_event list \<Rightarrow> one_hit_row list" where
  "one_hit_track_counts df =
     List.map_filter
       (\<lambda>(t, a, al).
          case group_rows by_track_artist_album df (t, a, al) of
            [] \<Rightarrow> None
          | r # rs \<Rightarrow>
              Some \<lparr> oh_track = t, oh_artist = a, oh_album = al,
                     oh_play_count = length (r # rs),
                     played_on = ts r,
                     oh_ms_played = sum_list (map ms_played (r # rs)),
                     on_playlist = False \<rparr>)
       (group_keys by_track_artist_album df)"

definition get_one_hit_wonders ::
  "rat argsort \<Rightarrow> playlist_entry list \<Rightarrow> play_event list \<Rightarrow> int \<Rightarrow> one_hit_row list" where
  "get_one_hit_wonders argsort playlist_tracks df limit =
     (let track_counts = one_hit_track_counts df;
          one_hits = filter (\<lambda>r. oh_play_count r = 1 \<and> 120000 \<le> oh_ms_played r) track_counts;
          marked = map (\<lambda>r. r\<lparr> on_playlist :=
                      (Some (oh_track r), Some (oh_artist r)) \<in> playlist_set playlist_tracks \<rparr>)
                    one_hits;
          kept = filter (\<lambda>r. \<not> on_playlist r) marked
      in head limit (sort_values_desc argsort (\<lambda>r. of_int (dt_nanos (played_on r))) kept))"

text \<open>
  \<open>get_one_hit_wonder_stats\<close> groups by track and artist only. Its percentage, a
  floating-point rounding of the two counts, is left out.
\<close>

record pair_count =
  pc_track :: string
  pc_artist :: string
  pc_play_count :: nat
  pc_ms_played :: int

definition pair_track_counts :: "play_event list \<Rightarrow> pair_count list" where
  "pair_track_counts df =
     map (\<lambda>(t, a).
            \<lparr> pc_track = t, pc_artist = a,
              pc_play_count = length (group_rows by_track_artist df (t, a)),
              pc_ms_played = sum_list (map ms_played (group_rows by_track_artist df (t, a))) \<rparr>)
         (group_keys by_track_artist df)"

definition stats_one_hits :: "playlist_entry list \<Rightarrow> play_event list \<Rightarrow> pair_count list" where
  "stats_one_hits playlist_tracks df =
     filter (\<lambda>r. pc_play_count r = 1
                 \<and> (Some (pc_track r), Some (pc_artist r)) \<notin> playlist_set playlist_tracks)
       (filter (\<lambda>r. 120000 \<le> pc_ms_played r) (pair_track_counts df))"

record one_hit_stats =
  total_unique_tracks :: nat
  one_hit_count :: nat

definition get_one_hit_wonder_stats :: "playlist_entry list \<Rightarrow> play_event list \<Rightarrow> one_hit_stats" where
  "get_one_hit_wonder_stats playlist_tracks df =
     \<lparr> total_unique_tracks = length (filter (\<lambda>r. 120000 \<le> pc_ms_played r) (pair_track_counts df)),
       one_hit_count = length (stats_one_hits playlist_tracks df) \<rparr>"

text \<open>
  What the specification asks of a one-hit wonder: the pair has exactly one play event
  in the whole table, of at least 120000 ms, and is on no playlist.
\<close>

definition qualifies_one_hit :: "playlist_entry list \<Rightarrow> play_event list \<Rightarrow> string \<Rightarrow> string \<Rightarrow> bool" where
  "qualifies_one_hit playlist_tracks df t a \<longleftrightarrow>
     (case filter (\<lambda>e. track e = Some t \<and> artist e = Some a) df of
        [e] \<Rightarrow> 120000 \<le> ms_played e
      | _ \<Rightarrow> False)
     \<and> (Some t, Some a) \<notin> playlist_set playlist_tracks"

text \<open>The row of \<open>pair_track_counts\<close> for one (track, artist) pair.\<close>

definition pair_row :: "play_event list \<Rightarrow> string \<Rightarrow> string \<Rightarrow> pair_count" where
  "pair_row df t a =
     \<lparr> pc_track = t, pc_artist = a,
       pc_play_count = length (filter (\<lambda>e. track e = Some t \<and> artist e = Some a) df),
       pc_ms_played = sum_list (map ms_played (filter (\<lambda>e. track e = Some t \<and> artist e = Some a) df)) \<rparr>"

subsection \<open>Search\<close>

text \<open>
  \<^verbatim>\<open>str.lower()\<close>. A string is a list of 8-bit characters here: the ASCII capitals
  are lowered and every other character is left as it is, where Python also lowers the
  capitals beyond ASCII.
\<close>

definition lower_char :: "char \<Rightarrow> char" where
  "lower_char c =
     (case map_of (zip ''ABCDEFGHIJKLMNOPQRSTUVWXYZ'' ''abcdefghijklmnopqrstuvwxyz'') c of
        None \<Rightarrow> c
      | Some l \<Rightarrow> l)"

definition lower :: "string \<Rightarrow> string" where
  "lower s = map lower_char s"

text \<open>
  \<^verbatim>\<open>Series.str.contains(pat, na=False)\<close> leaves \<^verbatim>\<open>regex=True\<close>: the pattern is
  compiled as a regular expression and searched for in every cell. The part of Python's
  pattern language modelled here: an ordinary character stands for itself, a dot for any
  character but a newline, and a pattern that begins with a repetition operator is
  rejected by the compiler (\<^verbatim>\<open>re.error\<close>: nothing to repeat). Any other pattern with a
  special character is outside the model (\<open>None\<close>).
\<close>

datatype re_error = NothingToRepeat

datatype pat_item = Lit char | AnyChar

definition regex_special :: "char \<Rightarrow> bool" where
  "regex_special c \<longleftrightarrow> c \<in> set ''.^$*+?{}[]|()'' \<or> c = CHR 0x5C"

fun parse_pattern :: "string \<Rightarrow> pat_item list option" where
  "parse_pattern [] = Some []"
| "parse_pattern (c # cs) =
     (if c = CHR ''.'' then map_option (Cons AnyChar) (parse_pattern cs)
      else if regex_special c then None
      else map_option (Cons (Lit c)) (parse_pattern cs))"

definition re_compile :: "string \<Rightarrow> (re_error + pat_item list) option" where
  "re_compile pat =
     (case pat of
        [] \<Rightarrow> Some (Inr [])
      | c # cs \<Rightarrow>
          if c \<in> set ''*+?'' then Some (Inl NothingToRepeat)
          else map_option Inr (parse_pattern pat))"

fun item_matches :: "pat_item \<Rightarrow> char \<Rightarrow> bool" where
  "item_matches (Lit c) d = (c = d)"
| "item_matches AnyChar d = (d \<noteq> CHR 0x0A)"

fun match_here :: "pat_item list \<Rightarrow> string \<Rightarrow> bool" where
  "match_here [] s = True"
| "match_here (p # ps) [] = False"
| "match_here (p # ps) (d # ds) = (item_matches p d \<and> match_here ps ds)"

fun re_search :: "pat_item list \<Rightarrow> string \<Rightarrow> bool" where
  "re_search ps [] = match_here ps []"
| "re_search ps (d # ds) = (match_here ps (d # ds) \<or> re_search ps ds)"

text \<open>A null cell does not match (\<^verbatim>\<open>na=False\<close>).\<close>

definition str_contains :: "pat_item list \<Rightarrow> string option \<Rightarrow> bool" where
  "str_contains re cell = (case cell of None \<Rightarrow> False | Some s \<Rightarrow> re_search re s)"

definition search_tracks_mask :: "pat_item list \<Rightarrow> play_event \<Rightarrow> bool" where
  "search_tracks_mask re e \<longleftrightarrow>
     str_contains re (map_option lower (track e))
     \<or> str_contains re (map_option lower (artist e))
     \<or> str_contains re (map_option lower (album e))"

definition search_artists_mask :: "pat_item list \<Rightarrow> play_event \<Rightarrow> bool" where
  "search_artists_mask re e \<longleftrightarrow> str_contains re (map_option lower (artist e))"

record 'k played_stats = "'k stats" +
  first_played :: timestamp
  last_played :: timestamp

record artist_stats = "string played_stats" +
  unique_tracks :: nat

fun ts_min :: "timestamp \<Rightarrow> timestamp list \<Rightarrow> timestamp" where
  "ts_min t [] = t"
| "ts_min t (u # us) = ts_min (if dt_nanos u < dt_nanos t then u else t) us"

fun ts_max :: "timestamp \<Rightarrow> timestamp list \<Rightarrow> timestamp" where
  "ts_max t [] = t"
| "ts_max t (u # us) = ts_max (if dt_nanos t < dt_nanos u then u else t) us"

definition search_track_stats :: "play_event list \<Rightarrow> (string \<times> string \<times> string) played_stats list" where
  "search_track_stats matches =
     List.map_filter
       (\<lambda>k. case group_rows by_track_artist_album matches k of
               [] \<Rightarrow> None
             | r # rs \<Rightarrow>
                 Some \<lparr> group_key = k,
                        play_count = length (r # rs),
                        total_minutes = sum_list (map minutes_played (r # rs)),
                        first_played = ts_min (ts r) (map ts rs),
                        last_played = ts_max (ts r) (map ts rs) \<rparr>)
       (group_keys by_track_artist_album matches)"

definition search_artist_stats :: "play_event list \<Rightarrow> artist_stats list" where
  "search_artist_stats matches =
     List.map_filter
       (\<lambda>k. case group_rows by_artist matches k of
               [] \<Rightarrow> None
             | r # rs \<Rightarrow>
                 Some \<lparr> group_key = k,
                        play_count = length (r # rs),
                        total_minutes = sum_list (map minutes_played (r # rs)),
                        first_played = ts_min (ts r) (map ts rs),
                        last_played = ts_max (ts r) (map ts rs),
                        unique_tracks = length (remdups (List.map_filter track (r # rs))) \<rparr>)
       (group_keys by_artist matches)"

text \<open>
  The result of a search: \<open>None\<close> when the query is outside the modelled patterns,
  \<open>Some (Inl e)\<close> when compiling it raises, \<open>Some (Inr rows)\<close> otherwise; the empty
  DataFrame is the empty list.
\<close>

definition search_tracks ::
  "rat argsort \<Rightarrow> play_event list \<Rightarrow> string \<Rightarrow> int
     \<Rightarrow> (re_error + (string \<times> string \<times> string) played_stats list) option" where
  "search_tracks argsort df query limit =
     (case re_compile (lower query) of
        None \<Rightarrow> None
      | Some (Inl e) \<Rightarrow> Some (Inl e)
      | Some (Inr re) \<Rightarrow>
          (let matches = filter (search_tracks_mask re) df
           in if matches = [] then Some (Inr [])
              else Some (Inr (head limit
                     (sort_values_desc argsort (\<lambda>s. of_nat (play_count s))
                        (search_track_stats matches))))))"

definition search_artists ::
  "rat argsort \<Rightarrow> play_event list \<Rightarrow> string \<Rightarrow> int \<Rightarrow> (re_error + artist_stats list) option" where
  "search_artists argsort df query limit =
     (case re_compile (lower query) of
        None \<Rightarrow> None
      | Some (Inl e) \<Rightarrow> Some (Inl e)
      | Some (Inr re) \<Rightarrow>
          (let matches = filter (search_artists_mask re) df
           in if matches = [] then Some (Inr [])
              else Some (Inr (head limit
                     (sort_values_desc argsort (\<lambda>s. of_nat (play_count s))
                        (search_artist_stats matches))))))"

text \<open>
  What the specification asks of a match: the query occurs in the cell, both taken in
  lower case.
\<close>

fun starts_with :: "'a list \<Rightarrow> 'a list \<Rightarrow> bool" where
  "starts_with s [] = True"
| "starts_with [] (c # cs) = False"
| "starts_with (d # ds) (c # cs) = (c = d \<and> starts_with ds cs)"

fun is_substring :: "'a list \<Rightarrow> 'a list \<Rightarrow> bool" where
  "is_substring q [] = (q = [])"
| "is_substring q (d # ds) = (starts_with (d # ds) q \<or> is_substring q ds)"

definition ci_substring :: "string \<Rightarrow> string option \<Rightarrow> bool" where
  "ci_substring query cell = (case cell of None \<Rightarrow> False | Some s \<Rightarrow> is_substring (lower query) (lower s))"

section \<open>Genre enrichment: \<^verbatim>\<open>spotify_api.py\<close>\<close>

subsection \<open>Dictionaries, files and the network\<close>

text \<open>
  A Python dictionary keeps its keys in insertion order: an association list in which
  storing under a known key replaces the value in place and a new key goes to the end.
\<close>

type_synonym ('k, 'v) dict = "('k \<times> 'v) list"

fun dict_set :: "('k, 'v) dict \<Rightarrow> 'k \<Rightarrow> 'v \<Rightarrow> ('k, 'v) dict" where
  "dict_set [] k v = [(k, v)]"
| "dict_set ((k', v') # d) k v = (if k' = k then (k, v) # d else (k', v') # dict_set d k v)"

definition dict_update :: "('k, 'v) dict \<Rightarrow> ('k, 'v) dict \<Rightarrow> ('k, 'v) dict" where
  "dict_update d other = foldl (\<lambda>acc (k, v). dict_set acc k v) d other"

text \<open>
  A JSON file on disk: absent; \<open>Malformed\<close>, when opening or parsing it raises
  IOError or JSONDecodeError; \<open>Undecodable\<close>, when its bytes are not UTF-8 and reading
  it raises UnicodeDecodeError (a ValueError, which is neither of the former); or holding
  a JSON value.
\<close>

datatype 'a json_file = Missing | Malformed | Undecodable | Content 'a

text \<open>
  The JSON value of the genre cache file: an object from artist names to genre lists, or
  any other value, of which only its truthiness matters.
\<close>

datatype genre_json = Genres "(string, string list) dict" | Other_json bool

text \<open>
  The JSON value of the token cache file: some value that is not an object, or an object
  with or without its two keys. \<open>access_token\<close> is \<open>None\<close> when the key is missing;
  a null token is the empty string, which is as falsy. The \<^verbatim>\<open>expires_at\<close> value is a
  date string (\<open>Expires\<close>, as seconds on the clock of \<open>now\<close>), a string on which
  \<^verbatim>\<open>datetime.fromisoformat\<close> raises ValueError, or a value on which it or the
  comparison with \<^verbatim>\<open>datetime.now()\<close> raises TypeError.
\<close>

datatype expires_cell = No_expiry | Expires int | Expiry_value_error | Expiry_type_error

record token_obj =
  access_token :: "string option"
  expires_at :: expires_cell

datatype token_json = Not_an_object | Token_object token_obj

text \<open>
  The \<^verbatim>\<open>Retry-After\<close> header as \<^verbatim>\<open>int(response.headers.get("Retry-After", 5))\<close>
  sees it: absent, a string that \<^verbatim>\<open>int\<close> accepts, or one on which it raises.
\<close>

datatype retry_after_header = Absent | Seconds int | Not_an_integer

text \<open>
  A response: \<open>body\<close> is the list the code iterates over,
  \<^verbatim>\<open>response.json().get("artists", [])\<close> or \<^verbatim>\<open>...get("tracks", [])\<close>, and \<open>None\<close> when
  getting at it raises. A request raises (timeout, no connection) or returns a response.
\<close>

record 'e response =
  status_code :: nat
  retry_after :: retry_after_header
  body :: "'e list option"

datatype 'e outcome = ConnectionError | Response "'e response"

text \<open>
  An entry of a response body. \<open>Null_artist\<close> and \<open>Null_track\<close> are the falsy entries
  (null, or an empty object), which the code skips. A missing \<^verbatim>\<open>id\<close> or \<^verbatim>\<open>name\<close> is
  \<open>None\<close>: reading it raises KeyError. Missing \<^verbatim>\<open>genres\<close> or \<^verbatim>\<open>artists\<close> are the
  empty list.
\<close>

datatype artist_entry = Null_artist | Artist_obj "string option" "string list"

datatype track_entry = Null_track | Track_obj "string option" "(string option \<times> string option) list"

datatype token_outcome = Token_failed | Token_granted string "int option"

datatype endpoint = Artists_endpoint | Tracks_endpoint

datatype message =
    Rate_limited int
  | Batch_error endpoint
  | Token_error
  | Not_configured
  | No_token
  | Fetching_tracks nat
  | Fetching_genres nat
  | Cached_genres nat

text \<open>
  What the module does to the outside, in order. \<open>Get ep ids retry\<close> is a request for a
  batch; \<open>retry\<close> tells the second request for a batch from the first.
\<close>

datatype io_event =
    Get endpoint "string list" bool
  | Post_token
  | Sleep rat
  | Print message
  | Write_genre_cache
  | Write_token_cache

text \<open>
  The state the module runs in: the environment, the two cache files, the clock, what the
  API answers to the \<open>n\<close>-th request of the run, the delays \<^verbatim>\<open>time.sleep\<close> accepts (it
  raises on a negative delay and on one beyond the platform's range), whether the cache
  directory can be written, the number of requests sent so far and the trace of effects.
\<close>

record world =
  REQUESTS_AVAILABLE :: bool
  SPOTIFY_CLIENT_ID :: "string option"
  SPOTIFY_CLIENT_SECRET :: "string option"
  GENRE_CACHE_FILE :: "genre_json json_file"
  TOKEN_CACHE_FILE :: "token_json json_file"
  now :: int
  token_api :: "nat \<Rightarrow> token_outcome"
  artists_api :: "nat \<Rightarrow> string list \<Rightarrow> artist_entry outcome"
  tracks_api :: "nat \<Rightarrow> string list \<Rightarrow> track_entry outcome"
  sleep_accepts :: "int \<Rightarrow> bool"
  disk_writable :: bool
  sent :: nat
  trace :: "io_event list"

definition emit :: "io_event \<Rightarrow> world \<Rightarrow> world" where
  "emit e w = w\<lparr> trace := trace w @ [e] \<rparr>"

definition events_since :: "world \<Rightarrow> world \<Rightarrow> io_event list" where
  "events_since w w' = drop (length (trace w)) (trace w')"

subsection \<open>Availability, the caches and the token\<close>

definition truthy :: "string option \<Rightarrow> bool" where
  "truthy v \<longleftrightarrow> (case v of None \<Rightarrow> False | Some s \<Rightarrow> s \<noteq> [])"

definition is_api_available :: "world \<Rightarrow> bool" where
  "is_api_available w \<longleftrightarrow>
     (if \<not> REQUESTS_AVAILABLE w then False
      else truthy (SPOTIFY_CLIENT_ID w) \<and> truthy (SPOTIFY_CLIENT_SECRET w))"

text \<open>
  \<open>load_genre_cache\<close> catches JSONDecodeError and IOError, and nothing else.
\<close>

definition load_genre_cache :: "world \<Rightarrow> error + genre_json" where
  "load_genre_cache w =
     (case GENRE_CACHE_FILE w of
        Missing \<Rightarrow> Inr (Genres [])
      | Malformed \<Rightarrow> Inr (Genres [])
      | Undecodable \<Rightarrow> Inl UnicodeDecodeError
      | Content c \<Rightarrow> Inr c)"

definition save_genre_cache :: "(string, string list) dict \<Rightarrow> world \<Rightarrow> error + world" where
  "save_genre_cache cache w =
     (if disk_writable w
      then Inr (emit Write_genre_cache (w\<lparr> GENRE_CACHE_FILE := Content (Genres cache) \<rparr>))
      else Inl OSError)"

text \<open>
  \<open>load_token_cache\<close> catches JSONDecodeError, IOError and ValueError. A value that
  is not an object has no \<^verbatim>\<open>get\<close>: AttributeError. Without \<^verbatim>\<open>expires_at\<close> the
  date is 1 January 2000, here in seconds since 1970.
\<close>

definition load_token_cache :: "world \<Rightarrow> error + token_obj option" where
  "load_token_cache w =
     (case TOKEN_CACHE_FILE w of
        Missing \<Rightarrow> Inr None
      | Malformed \<Rightarrow> Inr None
      | Undecodable \<Rightarrow> Inr None
      | Content Not_an_object \<Rightarrow> Inl AttributeError
      | Content (Token_object data) \<Rightarrow>
          (case expires_at data of
             No_expiry \<Rightarrow> if now w < 946684800 then Inr (Some data) else Inr None
           | Expires t \<Rightarrow> if now w < t then Inr (Some data) else Inr None
           | Expiry_value_error \<Rightarrow> Inr None
           | Expiry_type_error \<Rightarrow> Inl TypeError))"

definition save_token_cache :: "string \<Rightarrow> int \<Rightarrow> world \<Rightarrow> world" where
  "save_token_cache token expires_in w =
     emit Write_token_cache
       (w\<lparr> TOKEN_CACHE_FILE :=
             Content (Token_object
               \<lparr> access_token = Some token, expires_at = Expires (now w + (expires_in - 60)) \<rparr>) \<rparr>)"

text \<open>
  The \<^verbatim>\<open>try\<close> block of \<open>get_access_token\<close>: whatever raises in it, the request, the
  reading of the answer or the writing of the token file, is caught and printed.
\<close>

definition request_token :: "world \<Rightarrow> string option \<times> world" where
  "request_token w =
     (let w1 = emit Post_token (w\<lparr> sent := Suc (sent w) \<rparr>)
      in case token_api w (sent w) of
           Token_failed \<Rightarrow> (None, emit (Print Token_error) w1)
         | Token_granted token expires_in \<Rightarrow>
             if disk_writable w
             then (Some token,
                   save_token_cache token (case expires_in of None \<Rightarrow> 3600 | Some n \<Rightarrow> n) w1)
             else (None, emit (Print Token_error) w1))"

text \<open>
  \<^verbatim>\<open>if cached: return cached["access_token"]\<close> stands outside the \<^verbatim>\<open>try\<close>: a
  cached object that is not empty and has no \<^verbatim>\<open>access_token\<close> raises KeyError.
\<close>

definition get_access_token :: "world \<Rightarrow> error + (string option \<times> world)" where
  "get_access_token w =
     (if \<not> is_api_available w then Inr (None, w)
      else
        case load_token_cache w of
          Inl e \<Rightarrow> Inl e
        | Inr None \<Rightarrow> Inr (request_token w)
        | Inr (Some cached) \<Rightarrow>
            if access_token cached = None \<and> expires_at cached = No_expiry
            then Inr (request_token w)
            else
              (case access_token cached of
                 None \<Rightarrow> Inl (KeyError ''access_token'')
               | Some token \<Rightarrow> Inr (Some token, w)))"

subsection \<open>The batch loop of \<^verbatim>\<open>fetch_artists_genres\<close> and \<^verbatim>\<open>fetch_track_artists\<close>\<close>

text \<open>
  The two functions differ in the endpoint, in what they store from a response and in
  one print; their loop is one function of those three, and of what the endpoint answers
  to the \<open>n\<close>-th request. \<open>raise_for_status\<close> tells whether
  \<^verbatim>\<open>response.raise_for_status()\<close> raises.
\<close>

definition send ::
  "(nat \<Rightarrow> string list \<Rightarrow> 'e outcome) \<Rightarrow> endpoint \<Rightarrow> string list \<Rightarrow> bool \<Rightarrow> world
     \<Rightarrow> 'e outcome \<times> world" where
  "send api ep batch retry w =
     (api (sent w) batch, emit (Get ep batch retry) (w\<lparr> sent := Suc (sent w) \<rparr>))"

definition raise_for_status :: "'e response \<Rightarrow> bool" where
  "raise_for_status r \<longleftrightarrow> 400 \<le> status_code r \<and> status_code r < 600"

definition retry_delay :: "retry_after_header \<Rightarrow> int option" where
  "retry_delay h = (case h of Absent \<Rightarrow> Some 5 | Seconds n \<Rightarrow> Some n | Not_an_integer \<Rightarrow> None)"

text \<open>
  Storing a body mutates the results as it goes: the flag is \<open>False\<close> when an entry
  raises, and what was stored before it stays.
\<close>

fun store_artists :: "artist_entry list \<Rightarrow> (string, string list) dict \<Rightarrow> (string, string list) dict \<times> bool" where
  "store_artists [] results = (results, True)"
| "store_artists (Null_artist # es) results = store_artists es results"
| "store_artists (Artist_obj None genres # es) results = (results, False)"
| "store_artists (Artist_obj (Some i) genres # es) results = store_artists es (dict_set results i genres)"

fun artist_refs :: "(string option \<times> string option) list \<Rightarrow> (string \<times> string) list option" where
  "artist_refs [] = Some []"
| "artist_refs ((Some i, Some n) # as) = map_option (Cons (i, n)) (artist_refs as)"
| "artist_refs (a # as) = None"

fun store_tracks ::
  "track_entry list \<Rightarrow> (string, (string \<times> string) list) dict
     \<Rightarrow> (string, (string \<times> string) list) dict \<times> bool" where
  "store_tracks [] results = (results, True)"
| "store_tracks (Null_track # es) results = store_tracks es results"
| "store_tracks (Track_obj i as # es) results =
     (case artist_refs as of
        None \<Rightarrow> (results, False)
      | Some artists \<Rightarrow>
          (case i of
             None \<Rightarrow> (results, False)
           | Some tid \<Rightarrow> store_tracks es (dict_set results tid artists)))"

definition finish :: "('e list \<Rightarrow> 'd \<Rightarrow> 'd \<times> bool) \<Rightarrow> 'e response \<Rightarrow> 'd \<Rightarrow> 'd \<times> bool" where
  "finish store r results =
     (if raise_for_status r then (results, False)
      else case body r of None \<Rightarrow> (results, False) | Some entries \<Rightarrow> store entries results)"

definition settle :: "endpoint \<Rightarrow> 'd \<times> bool \<Rightarrow> world \<Rightarrow> 'd \<times> world \<times> bool" where
  "settle ep res w =
     (fst res, if snd res then w else emit (Print (Batch_error ep)) w, snd res)"

text \<open>
  One turn of the loop, the \<^verbatim>\<open>try\<close> block and its \<^verbatim>\<open>except\<close>: the results, the world
  and whether the block ran to its end.
\<close>

definition fetch_batch ::
  "(nat \<Rightarrow> string list \<Rightarrow> 'e outcome) \<Rightarrow> endpoint \<Rightarrow> bool
     \<Rightarrow> ('e list \<Rightarrow> 'd \<Rightarrow> 'd \<times> bool) \<Rightarrow> string list \<Rightarrow> 'd \<Rightarrow> world \<Rightarrow> 'd \<times> world \<times> bool" where
  "fetch_batch api ep announce store batch results w =
     (case send api ep batch False w of
        (ConnectionError, w1) \<Rightarrow> settle ep (results, False) w1
      | (Response r, w1) \<Rightarrow>
          if status_code r = 429 then
            (case retry_delay (retry_after r) of
               None \<Rightarrow> settle ep (results, False) w1
             | Some d \<Rightarrow>
                 (let w2 = (if announce then emit (Print (Rate_limited d)) w1 else w1)
                  in if \<not> sleep_accepts w d then settle ep (results, False) w2
                     else
                       (case send api ep batch True (emit (Sleep (of_int d)) w2) of
                          (ConnectionError, w3) \<Rightarrow> settle ep (results, False) w3
                        | (Response r2, w3) \<Rightarrow> settle ep (finish store r2 results) w3)))
          else settle ep (finish store r results) w1)"

function fetch_loop ::
  "(nat \<Rightarrow> string list \<Rightarrow> 'e outcome) \<Rightarrow> endpoint \<Rightarrow> bool
     \<Rightarrow> ('e list \<Rightarrow> 'd \<Rightarrow> 'd \<times> bool) \<Rightarrow> string list \<Rightarrow> nat \<Rightarrow> 'd \<Rightarrow> world \<Rightarrow> 'd \<times> world" where
  "fetch_loop api ep announce store unique_ids i results w =
     (if i < length unique_ids then
        (case fetch_batch api ep announce store (take 50 (drop i unique_ids)) results w of
           (results', w', ok) \<Rightarrow>
             fetch_loop api ep announce store unique_ids (i + 50) results'
               (if ok \<and> i + 50 < length unique_ids then emit (Sleep (1 / 10)) w' else w'))
      else (results, w))"
  by pat_completeness auto
termination
  by (relation "measure (\<lambda>(api, ep, announce, store, unique_ids, i, results, w). length unique_ids - i)")
     auto

declare fetch_loop.simps [simp del]

text \<open>
  \<^verbatim>\<open>list(set(x for x in ids if x))\<close>: the non-empty identifiers, each once. Python does
  not specify the order of a set; the model takes the one \<open>remdups\<close> gives.
\<close>

definition unique_nonempty :: "string list \<Rightarrow> string list" where
  "unique_nonempty ids = remdups (filter (\<lambda>x. x \<noteq> []) ids)"

definition fetch_artists_genres :: "string list \<Rightarrow> string \<Rightarrow> world \<Rightarrow> (string, string list) dict \<times> world" where
  "fetch_artists_genres artist_ids token w =
     (if artist_ids = [] \<or> token = [] then ([], w)
      else fetch_loop (artists_api w) Artists_endpoint True store_artists (unique_nonempty artist_ids) 0 [] w)"

definition fetch_track_artists ::
  "string list \<Rightarrow> string \<Rightarrow> world \<Rightarrow> (string, (string \<times> string) list) dict \<times> world" where
  "fetch_track_artists track_ids token w =
     (if track_ids = [] \<or> token = [] then ([], w)
      else fetch_loop (tracks_api w) Tracks_endpoint False store_tracks (unique_nonempty track_ids) 0 [] w)"

subsection \<open>\<^verbatim>\<open>enrich_with_genres\<close>\<close>

text \<open>\<^verbatim>\<open>Series.unique()\<close>: the distinct values, in order of first appearance.\<close>

definition unique :: "'a list \<Rightarrow> 'a list" where
  "unique xs = rev (remdups (rev xs))"

definition startswith :: "string \<Rightarrow> string \<Rightarrow> bool" where
  "startswith s p \<longleftrightarrow> take (length p) s = p"

text \<open>\<^verbatim>\<open>uri.split(":")[-1]\<close>: what follows the last colon.\<close>

definition last_segment :: "string \<Rightarrow> string" where
  "last_segment s = rev (takeWhile (\<lambda>c. c \<noteq> CHR '':'') (rev s))"

definition extract_track_id :: "string option \<Rightarrow> string option" where
  "extract_track_id uri =
     (case uri of
        None \<Rightarrow> None
      | Some u \<Rightarrow>
          if u = [] then None
          else if startswith u ''spotify:track:'' then Some (last_segment u)
          else None)"

definition collect_artists ::
  "(string, (string \<times> string) list) dict \<Rightarrow> string list \<times> (string, string) dict" where
  "collect_artists track_artists =
     (let refs = concat (map snd track_artists)
      in (remdups (map fst refs), foldl (\<lambda>m (i, n). dict_set m i n) [] refs))"

definition name_genres ::
  "(string, string) dict \<Rightarrow> (string, string list) dict \<Rightarrow> (string, string list) dict" where
  "name_genres artist_id_to_name artist_genres =
     foldl (\<lambda>result (artist_id, genres).
              case map_of artist_id_to_name artist_id of
                None \<Rightarrow> result
              | Some name \<Rightarrow> if name = [] then result else dict_set result name genres)
       [] artist_genres"

definition json_truthy :: "genre_json \<Rightarrow> bool" where
  "json_truthy c \<longleftrightarrow> (case c of Genres d \<Rightarrow> d \<noteq> [] | Other_json t \<Rightarrow> t)"

text \<open>
  The last steps of \<open>enrich_with_genres\<close>: \<^verbatim>\<open>cache.update(result)\<close>, which a cache
  that is not an object does not have, and the write of the cache file.
\<close>

definition update_and_save ::
  "genre_json \<Rightarrow> (string, string list) dict \<Rightarrow> world \<Rightarrow> error + (genre_json \<times> world)" where
  "update_and_save cache result w =
     (case cache of
        Other_json t \<Rightarrow> Inl AttributeError
      | Genres d \<Rightarrow>
          (case save_genre_cache (dict_update d result) w of
             Inl e \<Rightarrow> Inl e
           | Inr w' \<Rightarrow>
               Inr (Genres (dict_update d result),
                    emit (Print (Cached_genres (length result))) w')))"

definition enrich_with_genres ::
  "string list \<Rightarrow> play_event list option \<Rightarrow> bool \<Rightarrow> world \<Rightarrow> error + (genre_json \<times> world)" where
  "enrich_with_genres artist_names streaming_df force_refresh w =
     (case load_genre_cache w of
        Inl e \<Rightarrow> Inl e
      | Inr cache \<Rightarrow>
          if json_truthy cache \<and> \<not> force_refresh then Inr (cache, w)
          else if \<not> is_api_available w then Inr (cache, emit (Print Not_configured) w)
          else
            (case get_access_token w of
               Inl e \<Rightarrow> Inl e
             | Inr (None, w1) \<Rightarrow> Inr (cache, emit (Print No_token) w1)
             | Inr (Some token, w1) \<Rightarrow>
                 if token = [] then Inr (cache, emit (Print No_token) w1)
                 else
                   (case streaming_df of
                      None \<Rightarrow> Inr (cache, w1)
                    | Some df \<Rightarrow>
                        (let track_uris = unique (List.map_filter spotify_track_uri df);
                             track_ids = filter (\<lambda>tid. tid \<noteq> [])
                                           (List.map_filter (\<lambda>uri. extract_track_id (Some uri)) track_uris);
                             w2 = emit (Print (Fetching_tracks (length track_ids))) w1;
                             (track_artists, w3) = fetch_track_artists (take 1000 track_ids) token w2;
                             (artist_ids, artist_id_to_name) = collect_artists track_artists;
                             w4 = emit (Print (Fetching_genres (length artist_ids))) w3;
                             (artist_genres, w5) = fetch_artists_genres artist_ids token w4;
                             result = name_genres artist_id_to_name artist_genres
                         in update_and_save cache result w5))))"

subsection \<open>Reading the trace\<close>

text \<open>
  \<open>batches_issued\<close> lists the batches requested, first requests only; \<open>retries\<close> the
  batches requested a second time; \<open>sleeps\<close> the delays slept. A trace is \<open>quiet\<close>
  when it holds no batch request and no write of the genre cache.
\<close>

definition batches_issued :: "io_event list \<Rightarrow> string list list" where
  "batches_issued evs =
     List.map_filter
       (\<lambda>e. case e of Get ep ids retry \<Rightarrow> if retry then None else Some ids | _ \<Rightarrow> None) evs"

definition retries :: "io_event list \<Rightarrow> string list list" where
  "retries evs =
     List.map_filter
       (\<lambda>e. case e of Get ep ids retry \<Rightarrow> if retry then Some ids else None | _ \<Rightarrow> None) evs"

definition sleeps :: "io_event list \<Rightarrow> rat list" where
  "sleeps evs = List.map_filter (\<lambda>e. case e of Sleep d \<Rightarrow> Some d | _ \<Rightarrow> None) evs"

definition quiet :: "io_event list \<Rightarrow> bool" where
  "quiet evs \<longleftrightarrow>
     list_all (\<lambda>e. case e of Get ep ids retry \<Rightarrow> False | Write_genre_cache \<Rightarrow> False | _ \<Rightarrow> True) evs"

text \<open>The batches of the loop: the slices \<^verbatim>\<open>unique_ids[i:i + 50]\<close> for \<open>i\<close>, \<open>i + 50\<close>, ...\<close>

function batches_from :: "nat \<Rightarrow> 'a list \<Rightarrow> 'a list list" where
  "batches_from i ids = (if i < length ids then take 50 (drop i ids) # batches_from (i + 50) ids else [])"
  by pat_completeness auto
termination
  by (relation "measure (\<lambda>(i, ids). length ids - i)") auto

declare batches_from.simps [simp del]

section \<open>Sample data\<close>

definition sample_ts :: timestamp where
  "sample_ts = \<lparr> dt_year = 2023, dt_month = 5, dt_day = 1, dt_hour = 9,
                 dt_dayofweek = 0, dt_nanos = 1682931600000000000 \<rparr>"

definition sample_raw :: "string option \<Rightarrow> string option \<Rightarrow> string option \<Rightarrow> raw_event" where
  "sample_raw t ep bk =
     \<lparr> raw_ts = Parses sample_ts,
       raw_ms_played = 150000,
       master_metadata_track_name = t,
       master_metadata_album_artist_name = Some ''A'',
       master_metadata_album_album_name = Some ''X'',
       raw_episode_name = ep,
       raw_audiobook_title = bk,
       raw_spotify_track_uri = None \<rparr>"

text \<open>A play on the \<open>d\<close>-th day after Monday, 1 May 2023, at hour \<open>h\<close> (UTC).\<close>

definition sample_play :: "string \<Rightarrow> string \<Rightarrow> string option \<Rightarrow> nat \<Rightarrow> nat \<Rightarrow> int \<Rightarrow> play_event" where
  "sample_play t a al d h ms =
     \<lparr> ts = \<lparr> dt_year = 2023, dt_month = 5, dt_day = 1 + d, dt_hour = h, dt_dayofweek = d,
              dt_nanos = (1682899200 + 86400 * int d + 3600 * int h) * 1000000000 \<rparr>,
       year = 2023, month = 5, day = 1 + d, hour = h, day_of_week = d,
       ms_played = ms, minutes_played = of_int ms / 60000,
       track = Some t, artist = Some a, album = al,
       episode_name = None, audiobook_title = None, spotify_track_uri = None \<rparr>"

text \<open>
  A configured world with a cached genre for artist A, no cached token, and an API that
  answers every request: each track has one artist, each artist the genre pop.
\<close>

definition sample_world :: world where
  "sample_world =
     \<lparr> REQUESTS_AVAILABLE = True,
       SPOTIFY_CLIENT_ID = Some ''id'',
       SPOTIFY_CLIENT_SECRET = Some ''secret'',
       GENRE_CACHE_FILE = Content (Genres [(''A'', [''rock''])]),
       TOKEN_CACHE_FILE = Missing,
       now = 1000,
       token_api = (\<lambda>n. Token_granted ''tok'' None),
       artists_api = (\<lambda>n ids. Response \<lparr> status_code = 200, retry_after = Absent,
                         body = Some (map (\<lambda>i. Artist_obj (Some i) [''pop'']) ids) \<rparr>),
       tracks_api = (\<lambda>n ids. Response \<lparr> status_code = 200, retry_after = Absent,
                         body = Some (map (\<lambda>i. Track_obj (Some i) [(Some (''a'' @ i), Some ''N'')]) ids) \<rparr>),
       sleep_accepts = (\<lambda>d. 0 \<le> d \<and> d \<le> 9223372036),
       disk_writable = True,
       sent = 0,
       trace = [] \<rparr>"

text \<open>The artists endpoint answers 429 with \<^verbatim>\<open>Retry-After: 2\<close> once, then as above.\<close>

definition rate_limited_world :: world where
  "rate_limited_world =
     sample_world
       \<lparr> artists_api :=
           (\<lambda>n ids. if n = 0
                    then Response \<lparr> status_code = 429, retry_after = Seconds 2, body = None \<rparr>
                    else Response \<lparr> status_code = 200, retry_after = Absent,
                                    body = Some (map (\<lambda>i. Artist_obj (Some i) [''pop'']) ids) \<rparr>) \<rparr>"

text \<open>
  The artists endpoint answers 429 with a \<^verbatim>\<open>Retry-After\<close> that is not an integer, such
  as an HTTP date.
\<close>

definition http_date_world :: world where
  "http_date_world =
     sample_world
       \<lparr> artists_api :=
           (\<lambda>n ids. Response \<lparr> status_code = 429, retry_after = Not_an_integer, body = None \<rparr>) \<rparr>"

text \<open>
  The credentials are not set, and the genre cache file holds bytes that are not UTF-8.
\<close>

definition undecodable_cache_world :: world where
  "undecodable_cache_world =
     sample_world \<lparr> SPOTIFY_CLIENT_ID := None, GENRE_CACHE_FILE := Undecodable \<rparr>"

text \<open>
  No genre cache, and a token file with a date in the future (the clock of the sample
  world is at 1000) and no token.
\<close>

definition keyless_token_world :: world where
  "keyless_token_world =
     sample_world
       \<lparr> GENRE_CACHE_FILE := Missing,
         TOKEN_CACHE_FILE := Content (Token_object \<lparr> access_token = None, expires_at = Expires 2000 \<rparr>) \<rparr>"

section \<open>The loader keeps music only\<close>

text \<open>
  The loader raises on the table built from no record, and returns a table whenever
  there is a row and no timestamp fails to parse.
\<close>

lemma preprocess_data_no_record: "preprocess_data true_divide [] = Inl (KeyError ''ts'')"
  by (simp add: preprocess_data_def)

lemma to_datetime_returns:
  "\<forall>r \<in> set df. raw_ts r \<noteq> Unparseable \<Longrightarrow> \<exists>trs. to_datetime df = Inr trs"
  by (induction df) (auto split: ts_cell.splits)

lemma preprocess_data_returns:
  "df \<noteq> [] \<Longrightarrow> \<forall>r \<in> set df. raw_ts r \<noteq> Unparseable \<Longrightarrow>
     \<exists>events. preprocess_data true_divide df = Inr events"
  using to_datetime_returns [of df] by (auto simp: preprocess_data_def)

text \<open>
  Claim C9, as the code has it. Every event that \<open>preprocess_data\<close> retains has a
  track that is present (the cell is not null; it may be the empty string) and has neither
  an episode name nor an audiobook title (both cells are null).
\<close>

theorem preprocess_data_music_only:
  "preprocess_data true_divide df = Inr events \<Longrightarrow> e \<in> set events \<Longrightarrow>
     ld_track e \<noteq> None \<and> ld_episode_name e = None \<and> ld_audiobook_title e = None"
  by (auto simp: preprocess_data_def is_music_def split: sum.splits if_splits)

theorem preprocess_data_music_only_witness:
  "preprocess_data exact_divide
       [sample_raw (Some ''T'') None None, sample_raw None (Some ''E'') None,
        sample_raw (Some ''U'') None (Some ''B'')]
     = Inr [derive_columns exact_divide (Some sample_ts) (sample_raw (Some ''T'') None None)]
   \<and> ld_track (derive_columns exact_divide (Some sample_ts) (sample_raw (Some ''T'') None None))
       = Some ''T''
   \<and> ld_episode_name (derive_columns exact_divide (Some sample_ts) (sample_raw (Some ''T'') None None))
       = None
   \<and> ld_audiobook_title (derive_columns exact_divide (Some sample_ts) (sample_raw (Some ''T'') None None))
       = None"
  using preprocess_data_music_only
    [of exact_divide
        "[sample_raw (Some ''T'') None None, sample_raw None (Some ''E'') None,
          sample_raw (Some ''U'') None (Some ''B'')]"
        "[derive_columns exact_divide (Some sample_ts) (sample_raw (Some ''T'') None None)]"
        "derive_columns exact_divide (Some sample_ts) (sample_raw (Some ''T'') None None)"]
  by (simp add: preprocess_data_def is_music_def derive_columns_def sample_raw_def)

text \<open>
  Claim C9, as stated, fails: the filter tests the track for null, not for emptiness. A
  record whose track name is the empty string, with no episode and no audiobook, is
  retained, and its track is empty.
\<close>

theorem preprocess_data_empty_track_counterexample:
  "preprocess_data exact_divide [sample_raw (Some []) None None]
     = Inr [derive_columns exact_divide (Some sample_ts) (sample_raw (Some []) None None)]
   \<and> ld_track (derive_columns exact_divide (Some sample_ts) (sample_raw (Some []) None None))
       = Some []"
  by (simp add: preprocess_data_def is_music_def derive_columns_def sample_raw_def)

section \<open>Playlist overlap is symmetric\<close>

text \<open>
  Claim C5. The shared artists and the shared (track, artist) pairs of
  \<open>get_playlist_overlap df a b\<close> are those of \<open>get_playlist_overlap df b a\<close>, and so are
  their counts; the per-playlist counts are the same numbers under swapped labels.
\<close>

theorem get_playlist_overlap_symmetric:
  "map_option shared_artists (get_playlist_overlap df a b)
     = map_option shared_artists (get_playlist_overlap df b a)
   \<and> map_option shared_tracks (get_playlist_overlap df a b)
     = map_option shared_tracks (get_playlist_overlap df b a)
   \<and> map_option shared_artist_count (get_playlist_overlap df a b)
     = map_option shared_artist_count (get_playlist_overlap df b a)
   \<and> map_option shared_track_count (get_playlist_overlap df a b)
     = map_option shared_track_count (get_playlist_overlap df b a)
   \<and> map_option p1_track_count (get_playlist_overlap df a b)
     = map_option p2_track_count (get_playlist_overlap df b a)
   \<and> map_option p1_artist_count (get_playlist_overlap df a b)
     = map_option p2_artist_count (get_playlist_overlap df b a)
   \<and> map_option playlist1 (get_playlist_overlap df a b)
     = map_option playlist2 (get_playlist_overlap df b a)"
  by (simp add: get_playlist_overlap_def Let_def Int_commute)

section \<open>Top artists and top tracks\<close>

lemma length_head: "0 \<le> n \<Longrightarrow> length (head n xs) \<le> nat n"
  by (simp add: head_def)

lemma sort_values_desc_sorted:
  assumes "valid_argsort a"
  shows "sorted_wrt (\<ge>) (map col (sort_values_desc a col df))"
proof -
  define rdf where "rdf = rev df"
  define vals where "vals = map col rdf"
  have in_range: "\<forall>i \<in> set (a vals). i < length rdf"
    using assms by (simp add: valid_argsort_def vals_def)
  have eq: "map col (map (\<lambda>i. rdf ! i) (a vals)) = map (\<lambda>i. vals ! i) (a vals)"
    using in_range by (simp add: vals_def)
  have "sorted (map (\<lambda>i. vals ! i) (a vals))"
    using assms by (simp add: valid_argsort_def)
  then have "sorted (map col (map (\<lambda>i. rdf ! i) (a vals)))"
    by (simp only: eq)
  then have "sorted_wrt (\<ge>) (rev (map col (map (\<lambda>i. rdf ! i) (a vals))))"
    by (simp add: sorted_wrt_rev)
  then show ?thesis
    by (simp add: sort_values_desc_def Let_def rdf_def vals_def rev_map)
qed

lemma valid_stable_argsort: "valid_argsort (stable_argsort :: ('v::linorder) argsort)"
  by (simp add: valid_argsort_def stable_argsort_def)

lemma valid_antistable_argsort: "valid_argsort (antistable_argsort :: ('v::linorder) argsort)"
  by (simp add: valid_argsort_def antistable_argsort_def)

lemma head_sort_values_desc_sorted:
  "valid_argsort a \<Longrightarrow> sorted_wrt (\<ge>) (map col (head n (sort_values_desc a col xs)))"
  using sort_values_desc_sorted [of a col xs]
  by (simp add: head_def take_map [symmetric] sorted_wrt_take)

text \<open>
  Claim C2, as the code has it. For a limit \<open>N \<ge> 0\<close>, any year filter and either
  metric, \<open>get_top_artists\<close> and \<open>get_top_tracks\<close> return at most \<open>N\<close> rows, in descending
  order of the metric, whatever sorting permutation the library picks and however the
  sums of minutes round. Nothing is said of the order of rows with equal metric values.
\<close>

theorem top_n_sorted:
  assumes "valid_argsort argsort" and "0 \<le> limit"
  shows
    "length (get_top_artists argsort float_sum df y limit sort_by) \<le> nat limit
     \<and> sorted_wrt (\<ge>)
         (map (sort_col sort_by) (get_top_artists argsort float_sum df y limit sort_by))
     \<and> length (get_top_tracks argsort float_sum df y limit sort_by) \<le> nat limit
     \<and> sorted_wrt (\<ge>)
         (map (sort_col sort_by) (get_top_tracks argsort float_sum df y limit sort_by))"
  unfolding get_top_artists_def get_top_tracks_def
  by (intro conjI length_head [OF assms(2)] head_sort_values_desc_sorted [OF assms(1)])

theorem top_n_sorted_witness:
  "valid_argsort (stable_argsort :: rat argsort) \<and> (0::int) \<le> 1
   \<and> get_top_artists stable_argsort sum_list
        [sample_play ''T'' ''B'' None 0 9 150000, sample_play ''U'' ''A'' None 0 9 150000,
         sample_play ''V'' ''B'' None 0 9 150000] None 1 ''plays''
       = [\<lparr> group_key = ''B'', play_count = 2, total_minutes = 5 \<rparr>]
   \<and> length (get_top_tracks stable_argsort sum_list
        [sample_play ''T'' ''B'' None 0 9 150000, sample_play ''U'' ''A'' None 0 9 150000,
         sample_play ''V'' ''B'' None 0 9 150000] None 1 ''plays'') \<le> nat 1"
  using top_n_sorted [OF valid_stable_argsort, of 1 sum_list
        "[sample_play ''T'' ''B'' None 0 9 150000, sample_play ''U'' ''A'' None 0 9 150000,
          sample_play ''V'' ''B'' None 0 9 150000]" None "''plays''"]
    valid_stable_argsort [where ?'v = rat]
  by (simp add: get_top_artists_def head_def sort_values_desc_def stable_argsort_def
        groupby_agg_def group_keys_def group_rows_def sample_play_def List.map_filter_def
        filter_year_def by_artist_def sort_col_def)

text \<open>
  Claim C2, as stated, fails. Artists A and B are played once each, so their rows tie
  on the play count, and the grouping step hands the sort the rows A, B whichever was
  played first. The sort answers a column of two equal values with the indices 0, 1 or
  with 1, 0. In the first case the result is A, B, also when B was played first; in the
  second it is B, A, also when A was played first. Either way one of the two tables is
  not answered in first-occurrence order. With the limit -1 a table of two groups gives
  one row, which is more than the limit.
\<close>

theorem top_n_tie_order_counterexample:
  "stable_argsort [1, 1 :: rat] = [0, 1]
   \<and> \<not> ties_in_first_occurrence_order by_artist
        [sample_play ''T'' ''B'' None 0 9 150000, sample_play ''U'' ''A'' None 0 9 150000]
        (sort_col ''plays'')
        (get_top_artists stable_argsort sum_list
           [sample_play ''T'' ''B'' None 0 9 150000, sample_play ''U'' ''A'' None 0 9 150000]
           None 20 ''plays'')
   \<and> antistable_argsort [1, 1 :: rat] = [1, 0]
   \<and> \<not> ties_in_first_occurrence_order by_artist
        [sample_play ''U'' ''A'' None 0 9 150000, sample_play ''T'' ''B'' None 0 9 150000]
        (sort_col ''plays'')
        (get_top_artists antistable_argsort sum_list
           [sample_play ''U'' ''A'' None 0 9 150000, sample_play ''T'' ''B'' None 0 9 150000]
           None 20 ''plays'')
   \<and> \<not> int (length (get_top_artists stable_argsort sum_list
           [sample_play ''T'' ''B'' None 0 9 150000, sample_play ''U'' ''A'' None 0 9 150000]
           None (- 1) ''plays'')) \<le> - 1"
  by (simp add: ties_in_first_occurrence_order_def get_top_artists_def head_def
        sort_values_desc_def stable_argsort_def antistable_argsort_def groupby_agg_def
        group_keys_def group_rows_def sample_play_def List.map_filter_def filter_year_def
        by_artist_def sort_col_def numeral_2_eq_2)

text \<open>
  The same for every valid argsort and every way of summing: a valid argsort answers two
  equal values with one of the two index orders, the two tables give the same result, and
  that result cannot follow the first-occurrence order of both.
\<close>

lemma two_indices: "distinct xs \<Longrightarrow> set xs = {0, Suc 0} \<Longrightarrow> xs = [0, Suc 0] \<or> xs = [Suc 0, 0]"
proof -
  assume d: "distinct xs" and s: "set xs = {0, Suc 0}"
  from d have "length xs = card (set xs)" by (simp add: distinct_card)
  with s have "length xs = Suc (Suc 0)" by simp
  then obtain i j where ij: "xs = [i, j]"
    by (cases xs; cases "tl xs") auto
  from s ij have "i \<in> {0, Suc 0}" "j \<in> {0, Suc 0}" by auto
  moreover from d ij have "i \<noteq> j" by simp
  ultimately show ?thesis using ij by auto
qed

lemma argsort_two:
  assumes "valid_argsort a"
  shows "a [x, y] = [0, 1] \<or> a [x, y] = [1, 0]"
proof -
  from assms have "distinct (a [x, y]) \<and> set (a [x, y]) = {0..<length [x, y]}"
    unfolding valid_argsort_def by blast
  moreover have "{0..<length [x, y]} = {0, Suc 0}" by auto
  ultimately show ?thesis using two_indices [of "a [x, y]"] by simp
qed

lemma sort_values_desc_two:
  assumes "valid_argsort a"
  shows "sort_values_desc a col [r, s] = [r, s] \<or> sort_values_desc a col [r, s] = [s, r]"
  using argsort_two [OF assms, of "col s" "col r"]
  by (auto simp: sort_values_desc_def)

lemma groupby_two_artists:
  "groupby_agg float_sum by_artist
       [sample_play ''T'' ''B'' None 0 9 150000, sample_play ''U'' ''A'' None 0 9 150000]
     = [\<lparr> group_key = ''A'', play_count = 1, total_minutes = float_sum [5 / 2] \<rparr>,
        \<lparr> group_key = ''B'', play_count = 1, total_minutes = float_sum [5 / 2] \<rparr>]"
  "groupby_agg float_sum by_artist
       [sample_play ''U'' ''A'' None 0 9 150000, sample_play ''T'' ''B'' None 0 9 150000]
     = [\<lparr> group_key = ''A'', play_count = 1, total_minutes = float_sum [5 / 2] \<rparr>,
        \<lparr> group_key = ''B'', play_count = 1, total_minutes = float_sum [5 / 2] \<rparr>]"
  by (simp_all add: groupby_agg_def group_keys_def group_rows_def
          sample_play_def List.map_filter_def by_artist_def)

lemma top_artists_order_is_not_input_order:
  assumes "valid_argsort a"
  shows "get_top_artists a float_sum
           [sample_play ''T'' ''B'' None 0 9 150000, sample_play ''U'' ''A'' None 0 9 150000]
           None 20 ''plays''
         = get_top_artists a float_sum
           [sample_play ''U'' ''A'' None 0 9 150000, sample_play ''T'' ''B'' None 0 9 150000]
           None 20 ''plays''"
    and "\<not> (ties_in_first_occurrence_order by_artist
              [sample_play ''T'' ''B'' None 0 9 150000, sample_play ''U'' ''A'' None 0 9 150000]
              (sort_col ''plays'')
              (get_top_artists a float_sum
                 [sample_play ''T'' ''B'' None 0 9 150000, sample_play ''U'' ''A'' None 0 9 150000]
                 None 20 ''plays'')
            \<and> ties_in_first_occurrence_order by_artist
              [sample_play ''U'' ''A'' None 0 9 150000, sample_play ''T'' ''B'' None 0 9 150000]
              (sort_col ''plays'')
              (get_top_artists a float_sum
                 [sample_play ''U'' ''A'' None 0 9 150000, sample_play ''T'' ''B'' None 0 9 150000]
                 None 20 ''plays''))"
proof -
  define rA :: "string stats"
    where "rA = \<lparr> group_key = ''A'', play_count = 1, total_minutes = float_sum [5 / 2] \<rparr>"
  define rB :: "string stats"
    where "rB = \<lparr> group_key = ''B'', play_count = 1, total_minutes = float_sum [5 / 2] \<rparr>"
  have top: "get_top_artists a float_sum
           [sample_play ''T'' ''B'' None 0 9 150000, sample_play ''U'' ''A'' None 0 9 150000]
           None 20 ''plays'' = sort_values_desc a (sort_col ''plays'') [rA, rB]"
    "get_top_artists a float_sum
           [sample_play ''U'' ''A'' None 0 9 150000, sample_play ''T'' ''B'' None 0 9 150000]
           None 20 ''plays'' = sort_values_desc a (sort_col ''plays'') [rA, rB]"
    using sort_values_desc_two [OF assms, of "sort_col ''plays''" rA rB]
    by (auto simp: get_top_artists_def filter_year_def groupby_two_artists rA_def rB_def head_def)
  show "get_top_artists a float_sum
           [sample_play ''T'' ''B'' None 0 9 150000, sample_play ''U'' ''A'' None 0 9 150000]
           None 20 ''plays''
         = get_top_artists a float_sum
           [sample_play ''U'' ''A'' None 0 9 150000, sample_play ''T'' ''B'' None 0 9 150000]
           None 20 ''plays''"
    by (simp only: top)
  have keys: "map by_artist [sample_play ''T'' ''B'' None 0 9 150000, sample_play ''U'' ''A'' None 0 9 150000]
                = [Some ''B'', Some ''A'']"
    "map by_artist [sample_play ''U'' ''A'' None 0 9 150000, sample_play ''T'' ''B'' None 0 9 150000]
                = [Some ''A'', Some ''B'']"
    by (simp_all add: by_artist_def sample_play_def)
  have tie: "sort_col ''plays'' rA = sort_col ''plays'' rB"
    by (simp add: sort_col_def rA_def rB_def)
  show "\<not> (ties_in_first_occurrence_order by_artist
              [sample_play ''T'' ''B'' None 0 9 150000, sample_play ''U'' ''A'' None 0 9 150000]
              (sort_col ''plays'')
              (get_top_artists a float_sum
                 [sample_play ''T'' ''B'' None 0 9 150000, sample_play ''U'' ''A'' None 0 9 150000]
                 None 20 ''plays'')
            \<and> ties_in_first_occurrence_order by_artist
              [sample_play ''U'' ''A'' None 0 9 150000, sample_play ''T'' ''B'' None 0 9 150000]
              (sort_col ''plays'')
              (get_top_artists a float_sum
                 [sample_play ''U'' ''A'' None 0 9 150000, sample_play ''T'' ''B'' None 0 9 150000]
                 None 20 ''plays''))"
    unfolding top ties_in_first_occurrence_order_def keys
    using sort_values_desc_two [OF assms, of "sort_col ''plays''" rA rB] tie
    by (auto simp: rA_def rB_def)
qed

section \<open>The heatmap\<close>

lemma set_group_keys: "set (group_keys key df) = {k. \<exists>r \<in> set df. key r = Some k}"
  by (force simp: group_keys_def List.map_filter_def image_iff)

lemma distinct_group_keys: "distinct (group_keys key df)"
  by (simp add: group_keys_def)

lemma map_of_groupby_size:
  "map_of (groupby_size key df) k
     = (if k \<in> set (group_keys key df) then Some (length (group_rows key df k)) else None)"
  by (simp add: groupby_size_def map_of_map_restrict restrict_map_def)

lemma heatmap_cell:
  "fillna0 (map_of (groupby_size (\<lambda>e. Some (f e)) df) k) = length (filter (\<lambda>e. f e = k) df)"
proof (cases "k \<in> set (group_keys (\<lambda>e. Some (f e)) df)")
  case True
  then show ?thesis by (simp add: map_of_groupby_size fillna0_def group_rows_def)
next
  case False
  then have "\<forall>e \<in> set df. f e \<noteq> k" by (auto simp: set_group_keys)
  then have "filter (\<lambda>e. f e = k) df = []" by (simp add: filter_empty_conv)
  with False show ?thesis by (simp add: map_of_groupby_size fillna0_def)
qed

lemma sum_list_indicator:
  "distinct ks \<Longrightarrow> v \<in> set ks \<Longrightarrow> sum_list (map (\<lambda>k. if v = k then 1 else 0) ks) = (1::nat)"
  by (induction ks) auto

lemma count_by_key:
  "distinct ks \<Longrightarrow> g ` set xs \<subseteq> set ks \<Longrightarrow>
     sum_list (map (\<lambda>k. length (filter (\<lambda>e. g e = k) xs)) ks) = length xs"
proof (induction xs)
  case Nil
  then show ?case by simp
next
  case (Cons x xs)
  have "sum_list (map (\<lambda>k. length (filter (\<lambda>e. g e = k) (x # xs))) ks)
      = sum_list (map (\<lambda>k. (if g x = k then 1 else 0) + length (filter (\<lambda>e. g e = k) xs)) ks)"
    by (intro arg_cong [where f = sum_list] map_cong) auto
  also have "\<dots> = sum_list (map (\<lambda>k. if g x = k then 1 else 0) ks)
                  + sum_list (map (\<lambda>k. length (filter (\<lambda>e. g e = k) xs)) ks)"
    by (simp add: sum_list_addf)
  also have "\<dots> = 1 + length xs"
    using Cons by (simp add: sum_list_indicator)
  finally show ?case by simp
qed

text \<open>The cells of the pivot table add up to the number of rows of the input.\<close>

lemma heatmap_sum_eq_rows:
  "sum_list (map sum_list (pv_values (get_heatmap_data df))) = length df"
proof -
  define hm where "hm = groupby_size (\<lambda>e. Some (day_of_week e, hour e)) df"
  define idx where "idx = sort (remdups (map (\<lambda>((d, h), n). d) hm))"
  define cols where "cols = sort (remdups (map (\<lambda>((d, h), n). h) hm))"
  have keys: "map fst hm = group_keys (\<lambda>e. Some (day_of_week e, hour e)) df"
    by (simp add: hm_def groupby_size_def comp_def)
  have "set idx = fst ` set (map fst hm)"
    by (force simp: idx_def)
  then have idx: "day_of_week ` set df \<subseteq> set idx"
    by (force simp: keys set_group_keys)
  have "set cols = snd ` set (map fst hm)"
    by (force simp: cols_def)
  then have cols: "hour ` set df \<subseteq> set cols"
    by (force simp: keys set_group_keys)
  have row: "sum_list (map (\<lambda>h. fillna0 (map_of hm (d, h))) cols)
               = length (filter (\<lambda>e. day_of_week e = d) df)" for d
  proof -
    have "sum_list (map (\<lambda>h. fillna0 (map_of hm (d, h))) cols)
        = sum_list (map (\<lambda>h. length (filter (\<lambda>e. hour e = h) (filter (\<lambda>e. day_of_week e = d) df))) cols)"
      by (intro arg_cong [where f = sum_list] map_cong)
         (auto simp: hm_def heatmap_cell conj_commute intro: arg_cong [where f = length] filter_cong)
    also have "\<dots> = length (filter (\<lambda>e. day_of_week e = d) df)"
      using cols by (intro count_by_key) (auto simp: cols_def)
    finally show ?thesis .
  qed
  have "sum_list (map sum_list (pv_values (get_heatmap_data df)))
      = sum_list (map (\<lambda>d. sum_list (map (\<lambda>h. fillna0 (map_of hm (d, h))) cols)) idx)"
    by (simp add: get_heatmap_data_def Let_def hm_def idx_def cols_def comp_def)
  also have "\<dots> = sum_list (map (\<lambda>d. length (filter (\<lambda>e. day_of_week e = d) df)) idx)"
    by (simp add: row)
  also have "\<dots> = length df"
    using idx by (intro count_by_key) (auto simp: idx_def)
  finally show ?thesis .
qed

text \<open>The table is rectangular: one cell for each index label and column label it has.\<close>

lemma heatmap_rectangular:
  "length (pv_values (get_heatmap_data df)) = length (pv_index (get_heatmap_data df))
   \<and> list_all (\<lambda>row. length row = length (pv_columns (get_heatmap_data df)))
        (pv_values (get_heatmap_data df))"
  by (simp add: get_heatmap_data_def Let_def list_all_iff)

text \<open>
  Claim C1 asks for 7 rows of 24 cells whatever the events. The code labels the rows and
  columns with the days and hours that occur among the events: one play on a Monday at
  9 gives a single cell.
\<close>

theorem heatmap_not_dense:
  "get_heatmap_data [sample_play ''T'' ''A'' None 0 9 150000]
     = \<lparr> pv_index = [0], pv_columns = [9], pv_values = [ [1] ] \<rparr>
   \<and> \<not> dense_7x24 (get_heatmap_data [sample_play ''T'' ''A'' None 0 9 150000])"
  by (simp add: get_heatmap_data_def Let_def groupby_size_def group_keys_def group_rows_def
        sample_play_def List.map_filter_def fillna0_def dense_7x24_def)

section \<open>One-hit wonders\<close>

lemma group_rows_track_artist:
  "group_rows by_track_artist df (t, a) = filter (\<lambda>e. track e = Some t \<and> artist e = Some a) df"
  unfolding group_rows_def by_track_artist_def
  by (intro filter_cong) (auto split: option.splits)

lemma group_keys_track_artist:
  "(t, a) \<in> set (group_keys by_track_artist df)
     \<longleftrightarrow> filter (\<lambda>e. track e = Some t \<and> artist e = Some a) df \<noteq> []"
  by (auto simp: set_group_keys by_track_artist_def filter_empty_conv split: option.splits)

lemma pair_track_counts_eq:
  "pair_track_counts df = map (\<lambda>(t, a). pair_row df t a) (group_keys by_track_artist df)"
  by (simp add: pair_track_counts_def pair_row_def group_rows_track_artist)

lemma pair_track_counts_iff:
  "r \<in> set (pair_track_counts df) \<longleftrightarrow>
     (\<exists>t a. filter (\<lambda>e. track e = Some t \<and> artist e = Some a) df \<noteq> [] \<and> r = pair_row df t a)"
  unfolding pair_track_counts_eq
  by (force simp: group_keys_track_artist [symmetric])

text \<open>
  \<open>get_one_hit_wonder_stats\<close> counts exactly the pairs the specification describes.
  On a table where no group reaches 120000 ms, where the source raises, no pair
  qualifies and the model counts none.
\<close>

lemma stats_one_hits_iff:
  "(\<exists>r \<in> set (stats_one_hits playlist_tracks df). pc_track r = t \<and> pc_artist r = a)
     \<longleftrightarrow> qualifies_one_hit playlist_tracks df t a"
proof -
  define rows where "rows = filter (\<lambda>e. track e = Some t \<and> artist e = Some a) df"
  have named: "pc_track r = t \<and> pc_artist r = a \<longleftrightarrow> r = pair_row df t a"
    if "r \<in> set (pair_track_counts df)" for r
    using that by (auto simp: pair_track_counts_iff pair_row_def)
  have "(\<exists>r \<in> set (stats_one_hits playlist_tracks df). pc_track r = t \<and> pc_artist r = a)
     \<longleftrightarrow> pair_row df t a \<in> set (stats_one_hits playlist_tracks df)"
    using named by (auto simp: stats_one_hits_def)
  also have "\<dots> \<longleftrightarrow> rows \<noteq> [] \<and> length rows = 1 \<and> 120000 \<le> sum_list (map ms_played rows)
         \<and> (Some t, Some a) \<notin> playlist_set playlist_tracks"
    unfolding stats_one_hits_def rows_def
    by (auto simp: pair_track_counts_iff) (auto simp: pair_row_def)
  also have "\<dots> \<longleftrightarrow> qualifies_one_hit playlist_tracks df t a"
    unfolding qualifies_one_hit_def rows_def [symmetric]
    by (cases rows rule: list.exhaust; cases "tl rows") (auto split: list.splits)
  finally show ?thesis .
qed

text \<open>
  Claim C3 fails for \<open>get_one_hit_wonders\<close>, which counts plays per (track, artist,
  album). A track played twice, once from each of two albums, is listed twice although
  the pair has two plays; a track played once whose album is missing is not listed
  although it qualifies. \<open>get_one_hit_wonder_stats\<close> counts 0 and 2 one-hit wonders
  on the same two tables.
\<close>

theorem one_hit_wonders_grouped_by_album:
  "map (\<lambda>r. (oh_track r, oh_artist r, oh_album r))
     (get_one_hit_wonders stable_argsort []
        [sample_play ''T'' ''A'' (Some ''X'') 0 9 150000,
         sample_play ''T'' ''A'' (Some ''Y'') 1 9 150000] 50)
     = [(''T'', ''A'', ''Y''), (''T'', ''A'', ''X'')]
   \<and> \<not> qualifies_one_hit []
        [sample_play ''T'' ''A'' (Some ''X'') 0 9 150000,
         sample_play ''T'' ''A'' (Some ''Y'') 1 9 150000] ''T'' ''A''
   \<and> get_one_hit_wonder_stats []
        [sample_play ''T'' ''A'' (Some ''X'') 0 9 150000,
         sample_play ''T'' ''A'' (Some ''Y'') 1 9 150000]
     = \<lparr> total_unique_tracks = 1, one_hit_count = 0 \<rparr>
   \<and> map (\<lambda>r. (oh_track r, oh_artist r, oh_album r))
     (get_one_hit_wonders stable_argsort []
        [sample_play ''T'' ''A'' None 0 9 150000,
         sample_play ''U'' ''B'' (Some ''X'') 1 9 150000] 50)
     = [(''U'', ''B'', ''X'')]
   \<and> qualifies_one_hit []
        [sample_play ''T'' ''A'' None 0 9 150000,
         sample_play ''U'' ''B'' (Some ''X'') 1 9 150000] ''T'' ''A''
   \<and> get_one_hit_wonder_stats []
        [sample_play ''T'' ''A'' None 0 9 150000,
         sample_play ''U'' ''B'' (Some ''X'') 1 9 150000]
     = \<lparr> total_unique_tracks = 2, one_hit_count = 2 \<rparr>"
  by (simp add: get_one_hit_wonders_def one_hit_track_counts_def get_one_hit_wonder_stats_def
        stats_one_hits_def pair_track_counts_def qualifies_one_hit_def playlist_set_def
        by_track_artist_album_def by_track_artist_def group_keys_def group_rows_def
        head_def sort_values_desc_def stable_argsort_def sample_play_def List.map_filter_def Let_def)

section \<open>Search\<close>

lemma starts_with_iff: "starts_with s q \<longleftrightarrow> (\<exists>ss. s = q @ ss)"
  by (induction s q rule: starts_with.induct) auto

text \<open>\<open>is_substring q s\<close> says that \<open>q\<close> occurs in \<open>s\<close>.\<close>

lemma is_substring_iff: "is_substring q s \<longleftrightarrow> (\<exists>ps ss. s = ps @ q @ ss)"
proof (induction s)
  case Nil
  then show ?case by auto
next
  case (Cons d ds)
  have "(\<exists>ps ss. d # ds = ps @ q @ ss)
      \<longleftrightarrow> (\<exists>ss. d # ds = q @ ss) \<or> (\<exists>ps ss. ds = ps @ q @ ss)"
    (is "?l \<longleftrightarrow> ?r")
  proof
    assume ?l
    then obtain ps ss where eq: "d # ds = ps @ q @ ss" by blast
    show ?r
    proof (cases ps)
      case Nil
      with eq show ?thesis by auto
    next
      case (Cons p ps')
      with eq have "ds = ps' @ q @ ss" by simp
      then show ?thesis by blast
    qed
  next
    assume ?r
    then show ?l
    proof
      assume "\<exists>ss. d # ds = q @ ss"
      then obtain ss where "d # ds = [] @ q @ ss" by auto
      then show ?l by blast
    next
      assume "\<exists>ps ss. ds = ps @ q @ ss"
      then obtain ps ss where "d # ds = (d # ps) @ q @ ss" by auto
      then show ?l by blast
    qed
  qed
  with Cons show ?case by (simp add: starts_with_iff)
qed

lemma match_here_literal: "match_here (map Lit p) s = starts_with s p"
  by (induction s p rule: starts_with.induct) auto

lemma re_search_literal: "re_search (map Lit p) s = is_substring p s"
proof (induction s)
  case Nil
  then show ?case by (cases p) auto
next
  case (Cons d ds)
  then show ?case by (simp add: match_here_literal)
qed

lemma parse_pattern_literal:
  "\<forall>c \<in> set p. \<not> regex_special c \<Longrightarrow> parse_pattern p = Some (map Lit p)"
  by (induction p) (auto simp: regex_special_def)

lemma re_compile_literal:
  "\<forall>c \<in> set p. \<not> regex_special c \<Longrightarrow> re_compile p = Some (Inr (map Lit p))"
  by (cases p) (auto simp: re_compile_def parse_pattern_literal regex_special_def)

lemma str_contains_literal: "str_contains (map Lit (lower q)) (map_option lower cell) = ci_substring q cell"
  by (cases cell) (simp_all add: str_contains_def ci_substring_def re_search_literal)

text \<open>
  On a query without special characters both searches match exactly the rows the
  specification describes.
\<close>

lemma search_literal_query:
  assumes "\<forall>c \<in> set (lower query). \<not> regex_special c"
  shows "re_compile (lower query) = Some (Inr (map Lit (lower query)))"
    and "search_tracks_mask (map Lit (lower query)) e
           \<longleftrightarrow> ci_substring query (track e) \<or> ci_substring query (artist e) \<or> ci_substring query (album e)"
    and "search_artists_mask (map Lit (lower query)) e \<longleftrightarrow> ci_substring query (artist e)"
  using assms
  by (simp_all add: re_compile_literal search_tracks_mask_def search_artists_mask_def str_contains_literal)

text \<open>
  Claim C4 fails on a query with a special character. The query \<open>.\<close> matches the row
  whose track is \<open>abc\<close>, artist \<open>xyz\<close> and album \<open>X\<close>, none of which contains a dot,
  and both searches return that row. The query \<open>?\<close> makes both searches raise.
\<close>

theorem search_query_is_a_pattern:
  "re_compile (lower ''.'') = Some (Inr [AnyChar])
   \<and> search_tracks_mask [AnyChar] (sample_play ''abc'' ''xyz'' (Some ''X'') 0 9 150000)
   \<and> \<not> ci_substring ''.'' (track (sample_play ''abc'' ''xyz'' (Some ''X'') 0 9 150000))
   \<and> \<not> ci_substring ''.'' (artist (sample_play ''abc'' ''xyz'' (Some ''X'') 0 9 150000))
   \<and> \<not> ci_substring ''.'' (album (sample_play ''abc'' ''xyz'' (Some ''X'') 0 9 150000))
   \<and> map_option (map_sum id (map group_key))
        (search_tracks stable_argsort [sample_play ''abc'' ''xyz'' (Some ''X'') 0 9 150000] ''.'' 50)
       = Some (Inr [(''abc'', ''xyz'', ''X'')])
   \<and> map_option (map_sum id (map group_key))
        (search_artists stable_argsort [sample_play ''abc'' ''xyz'' (Some ''X'') 0 9 150000] ''.'' 20)
       = Some (Inr [''xyz''])
   \<and> search_tracks stable_argsort [sample_play ''abc'' ''xyz'' (Some ''X'') 0 9 150000] ''?'' 50
       = Some (Inl NothingToRepeat)
   \<and> search_artists stable_argsort [sample_play ''abc'' ''xyz'' (Some ''X'') 0 9 150000] ''?'' 20
       = Some (Inl NothingToRepeat)"
  by (simp add: re_compile_def lower_def lower_char_def regex_special_def search_tracks_mask_def
        search_artists_mask_def str_contains_def ci_substring_def search_tracks_def search_artists_def
        search_track_stats_def search_artist_stats_def by_track_artist_album_def by_track_artist_def
        by_artist_def group_keys_def group_rows_def head_def sort_values_desc_def stable_argsort_def
        sample_play_def List.map_filter_def Let_def)

section \<open>Enrichment and the cache\<close>

lemma events_since_emit [simp]: "events_since w (emit e w) = [e]"
  by (simp add: events_since_def emit_def)

lemma request_token_quiet:
  "quiet (events_since w (snd (request_token w)))
   \<and> GENRE_CACHE_FILE (snd (request_token w)) = GENRE_CACHE_FILE w
   \<and> length (trace w) \<le> length (trace (snd (request_token w)))"
  by (simp add: request_token_def quiet_def events_since_def emit_def save_token_cache_def Let_def
        split: token_outcome.splits)

lemma get_access_token_quiet:
  assumes "get_access_token w = Inr (t, w1)"
  shows "quiet (events_since w w1) \<and> GENRE_CACHE_FILE w1 = GENRE_CACHE_FILE w
         \<and> length (trace w) \<le> length (trace w1)"
proof (cases "w1 = w")
  case True
  then show ?thesis by (simp add: quiet_def events_since_def)
next
  case False
  with assms have "request_token w = (t, w1)"
    by (auto simp: get_access_token_def split: if_splits sum.splits option.splits)
  with request_token_quiet [of w] show ?thesis by simp
qed

text \<open>
  What holds of Claim C6: whenever the genre cache file can be read, the cache path
  returns the cache and leaves the world as it is; without the API the cache is
  returned after one print; and when \<open>get_access_token\<close> returns no token, or an empty
  one, the cache is returned, the cache file is as it was and the trace holds no batch
  request and no cache write.
\<close>

lemma enrich_cache_paths:
  assumes "load_genre_cache w = Inr cache"
  shows
    "(json_truthy cache \<and> \<not> force_refresh \<longrightarrow>
        enrich_with_genres artist_names streaming_df force_refresh w = Inr (cache, w))
     \<and> (\<not> (json_truthy cache \<and> \<not> force_refresh) \<and> \<not> is_api_available w \<longrightarrow>
        enrich_with_genres artist_names streaming_df force_refresh w
          = Inr (cache, emit (Print Not_configured) w))
     \<and> (\<forall>t w1. \<not> (json_truthy cache \<and> \<not> force_refresh) \<and> is_api_available w
           \<and> get_access_token w = Inr (t, w1) \<and> (t = None \<or> t = Some []) \<longrightarrow>
        enrich_with_genres artist_names streaming_df force_refresh w
          = Inr (cache, emit (Print No_token) w1)
        \<and> GENRE_CACHE_FILE (emit (Print No_token) w1) = GENRE_CACHE_FILE w
        \<and> quiet (events_since w (emit (Print No_token) w1)))"
proof (intro conjI allI impI)
  assume "json_truthy cache \<and> \<not> force_refresh"
  with assms show "enrich_with_genres artist_names streaming_df force_refresh w = Inr (cache, w)"
    by (simp add: enrich_with_genres_def)
next
  assume "\<not> (json_truthy cache \<and> \<not> force_refresh) \<and> \<not> is_api_available w"
  with assms show "enrich_with_genres artist_names streaming_df force_refresh w
          = Inr (cache, emit (Print Not_configured) w)"
    by (auto simp: enrich_with_genres_def)
next
  fix t w1
  assume a: "\<not> (json_truthy cache \<and> \<not> force_refresh) \<and> is_api_available w
           \<and> get_access_token w = Inr (t, w1) \<and> (t = None \<or> t = Some [])"
  with assms show "enrich_with_genres artist_names streaming_df force_refresh w
          = Inr (cache, emit (Print No_token) w1)"
    by (auto simp: enrich_with_genres_def)
  from a have tok: "get_access_token w = Inr (t, w1)" by simp
  from get_access_token_quiet [OF tok]
  show "GENRE_CACHE_FILE (emit (Print No_token) w1) = GENRE_CACHE_FILE w"
    by (simp add: emit_def)
  from get_access_token_quiet [OF tok]
  show "quiet (events_since w (emit (Print No_token) w1))"
    by (simp add: emit_def quiet_def events_since_def)
qed

lemma enrich_cache_paths_sample:
  "enrich_with_genres [''B''] None False sample_world
     = Inr (Genres [(''A'', [''rock''])], sample_world)
   \<and> get_access_token (sample_world\<lparr> token_api := \<lambda>n. Token_failed \<rparr>)
       = Inr (None, sample_world\<lparr> token_api := \<lambda>n. Token_failed, sent := 1,
                                   trace := [Post_token, Print Token_error] \<rparr>)
   \<and> enrich_with_genres [''B''] None True (sample_world\<lparr> token_api := \<lambda>n. Token_failed \<rparr>)
       = Inr (Genres [(''A'', [''rock''])],
              sample_world\<lparr> token_api := \<lambda>n. Token_failed, sent := 1,
                             trace := [Post_token, Print Token_error, Print No_token] \<rparr>)"
  by (simp add: sample_world_def enrich_with_genres_def load_genre_cache_def json_truthy_def
        get_access_token_def request_token_def is_api_available_def truthy_def
        load_token_cache_def emit_def Let_def)

text \<open>
  Where \<open>enrich_with_genres\<close> raises before it fetches: when reading the genre cache
  raises, and, on the way to the API, when \<open>get_access_token\<close> raises.
\<close>

lemma enrich_raises:
  "load_genre_cache w = Inl e \<Longrightarrow>
     enrich_with_genres artist_names streaming_df force_refresh w = Inl e"
  "load_genre_cache w = Inr cache \<Longrightarrow> \<not> (json_truthy cache \<and> \<not> force_refresh) \<Longrightarrow>
     is_api_available w \<Longrightarrow> get_access_token w = Inl e \<Longrightarrow>
     enrich_with_genres artist_names streaming_df force_refresh w = Inl e"
  by (auto simp: enrich_with_genres_def)

lemma load_genre_cache_raises:
  "load_genre_cache w = Inl e \<longleftrightarrow> GENRE_CACHE_FILE w = Undecodable \<and> e = UnicodeDecodeError"
  by (auto simp: load_genre_cache_def split: json_file.splits)

text \<open>
  Claim C6 fails on a cache file the loaders do not expect. \<open>load_genre_cache\<close>
  catches JSONDecodeError and IOError only: on a genre cache file that is not UTF-8,
  \<open>enrich_with_genres\<close> raises UnicodeDecodeError, with the API unavailable and
  whatever \<open>force_refresh\<close> is. And \<open>get_access_token\<close> reads
  \<^verbatim>\<open>cached["access_token"]\<close> outside its \<^verbatim>\<open>try\<close>: with no genre cache and a token file
  that has a date in the future and no token, no token is obtained and
  \<open>enrich_with_genres\<close> raises KeyError.
\<close>

theorem enrich_raises_on_unreadable_cache:
  "\<not> is_api_available undecodable_cache_world
   \<and> enrich_with_genres [''A''] None True undecodable_cache_world = Inl UnicodeDecodeError
   \<and> enrich_with_genres [''A''] None False undecodable_cache_world = Inl UnicodeDecodeError
   \<and> load_genre_cache keyless_token_world = Inr (Genres [])
   \<and> is_api_available keyless_token_world
   \<and> get_access_token keyless_token_world = Inl (KeyError ''access_token'')
   \<and> enrich_with_genres [''A''] None False keyless_token_world = Inl (KeyError ''access_token'')"
  by (simp add: undecodable_cache_world_def keyless_token_world_def sample_world_def
        enrich_with_genres_def load_genre_cache_def json_truthy_def get_access_token_def
        is_api_available_def truthy_def load_token_cache_def)

text \<open>
  Claim C10. The result of \<open>enrich_with_genres\<close>, the returned mapping and the world
  with its persisted cache, does not depend on \<open>artist_names\<close>.
\<close>

theorem enrich_ignores_artist_names:
  "enrich_with_genres artist_names streaming_df force_refresh w
     = enrich_with_genres artist_names' streaming_df force_refresh w"
  by (simp add: enrich_with_genres_def)

section \<open>Batches\<close>

lemma batches_issued_append [simp]:
  "batches_issued (xs @ ys) = batches_issued xs @ batches_issued ys"
  by (simp add: batches_issued_def List.map_filter_def)

lemma batches_issued_simps [simp]:
  "batches_issued [] = []"
  "batches_issued (Get ep ids retry # evs) = (if retry then [] else [ids]) @ batches_issued evs"
  "batches_issued (Sleep d # evs) = batches_issued evs"
  "batches_issued (Print m # evs) = batches_issued evs"
  by (simp_all add: batches_issued_def List.map_filter_def)

lemma trace_fetch_batch:
  assumes "fetch_batch api ep announce store batch results w = (results', w', ok)"
  shows "\<exists>evs. trace w' = trace w @ evs \<and> batches_issued evs = [batch]"
  using assms
  by (auto simp: fetch_batch_def send_def settle_def emit_def Let_def
        split: outcome.splits if_splits option.splits prod.splits)

lemma trace_fetch_loop:
  "\<exists>evs. trace (snd (fetch_loop api ep announce store ids i results w)) = trace w @ evs
         \<and> batches_issued evs = batches_from i ids"
proof (induction api ep announce store ids i results w rule: fetch_loop.induct)
  case (1 api ep announce store ids i results w)
  show ?case
  proof (cases "i < length ids")
    case False
    then show ?thesis
      by (simp add: fetch_loop.simps [of _ _ _ _ ids i] batches_from.simps [of i ids])
  next
    case True
    obtain results' w' ok where
      step: "fetch_batch api ep announce store (take 50 (drop i ids)) results w = (results', w', ok)"
      by (cases "fetch_batch api ep announce store (take 50 (drop i ids)) results w") auto
    define w'' where "w'' = (if ok \<and> i + 50 < length ids then emit (Sleep (1 / 10)) w' else w')"
    from trace_fetch_batch [OF step] obtain evs1 where
      evs1: "trace w' = trace w @ evs1" "batches_issued evs1 = [take 50 (drop i ids)]"
      by blast
    have "\<exists>evs2. trace w'' = trace w' @ evs2 \<and> batches_issued evs2 = []"
      by (simp add: w''_def emit_def)
    then obtain evs2 where evs2: "trace w'' = trace w' @ evs2" "batches_issued evs2 = []"
      by blast
    from "1.IH" [OF True step [symmetric] refl] obtain evs3 where
      evs3: "trace (snd (fetch_loop api ep announce store ids (i + 50) results' w'')) = trace w'' @ evs3"
            "batches_issued evs3 = batches_from (i + 50) ids"
      unfolding w''_def by blast
    have "fetch_loop api ep announce store ids i results w
            = fetch_loop api ep announce store ids (i + 50) results' w''"
      using True step by (simp add: fetch_loop.simps [of _ _ _ _ ids i] w''_def)
    then have "trace (snd (fetch_loop api ep announce store ids i results w))
                 = trace w @ (evs1 @ evs2 @ evs3)"
      using evs1 evs2 evs3 by simp
    moreover have "batches_issued (evs1 @ evs2 @ evs3) = batches_from i ids"
      using True evs1 evs2 evs3 by (simp add: batches_from.simps [of i ids])
    ultimately show ?thesis by blast
  qed
qed

lemma step_div_50:
  assumes "i < (n::nat)"
  shows "Suc ((n - (i + 50) + 49) div 50) = (n - i + 49) div 50"
proof (cases "i + 50 \<le> n")
  case True
  then have "n - i + 49 = (n - (i + 50) + 49) + 50" by simp
  then show ?thesis by (simp only: div_add_self2)
next
  case False
  define k where "k = n - i - 1"
  have k: "n - i + 49 = k + 50" "k < 50" "n - (i + 50) = 0"
    using assms False by (simp_all add: k_def)
  show ?thesis
    unfolding k(1) k(3) using k(2) by simp
qed

lemma length_batches_from: "length (batches_from i ids) = (length ids - i + 49) div 50"
proof (induction i ids rule: batches_from.induct)
  case (1 i ids)
  show ?case
  proof (cases "i < length ids")
    case True
    then have "length (batches_from i ids) = Suc ((length ids - (i + 50) + 49) div 50)"
      using "1.IH" by (simp add: batches_from.simps [of i ids])
    also have "\<dots> = (length ids - i + 49) div 50"
      using True by (rule step_div_50)
    finally show ?thesis .
  next
    case False
    then show ?thesis by (simp add: batches_from.simps [of i ids])
  qed
qed

lemma size_batches_from: "b \<in> set (batches_from i ids) \<Longrightarrow> 0 < length b \<and> length b \<le> 50"
proof (induction i ids rule: batches_from.induct)
  case (1 i ids)
  then show ?case
    by (cases "i < length ids") (auto simp: batches_from.simps [of i ids])
qed

lemma concat_batches_from: "concat (batches_from i ids) = drop i ids"
proof (induction i ids rule: batches_from.induct)
  case (1 i ids)
  show ?case
  proof (cases "i < length ids")
    case True
    have "drop i ids = take 50 (drop i ids) @ drop 50 (drop i ids)"
      by (rule append_take_drop_id [symmetric])
    also have "drop 50 (drop i ids) = drop (i + 50) ids"
      by (simp add: add.commute)
    finally show ?thesis
      using True "1.IH" by (simp add: batches_from.simps [of i ids])
  next
    case False
    then show ?thesis by (simp add: batches_from.simps [of i ids])
  qed
qed

lemma ceiling_div_50: "nat \<lceil>(of_nat n :: rat) / 50\<rceil> = (n + 49) div 50"
proof -
  have "\<lceil>(of_int (int n) :: rat) / of_int 50\<rceil> = - (- int n div 50)"
    by (rule ceiling_divide_eq_div)
  then have "\<lceil>(of_nat n :: rat) / 50\<rceil> = - (- int n div 50)" by simp
  also have "\<dots> = int ((n + 49) div 50)" by (simp add: zdiv_int)
  finally show ?thesis by simp
qed

lemma events_since_append: "trace w' = trace w @ evs \<Longrightarrow> events_since w w' = evs"
  by (simp add: events_since_def)

lemma fetch_loop_batches:
  "batches_issued (events_since w (snd (fetch_loop api ep announce store ids 0 results w)))
     = batches_from 0 ids"
proof -
  obtain evs where
    "trace (snd (fetch_loop api ep announce store ids 0 results w)) = trace w @ evs"
    "batches_issued evs = batches_from 0 ids"
    using trace_fetch_loop [of api ep announce store ids 0 results w] by blast
  then show ?thesis by (simp add: events_since_append)
qed

lemma batches_from_count:
  "length (batches_from 0 ids) = nat \<lceil>(of_nat (length ids) :: rat) / 50\<rceil>
   \<and> (\<forall>b \<in> set (batches_from 0 ids). length b \<le> 50)
   \<and> concat (batches_from 0 ids) = ids"
  using size_batches_from [of _ 0 ids]
  by (auto simp: length_batches_from ceiling_div_50 concat_batches_from)

text \<open>
  Claim C7. With \<open>n > 0\<close> distinct non-empty identifiers, both fetch functions issue
  exactly \<open>\<lceil>n / 50\<rceil>\<close> batches of at most 50 identifiers, which together are the
  distinct identifiers, whatever the API answers. The token is not empty:
  \<open>enrich_with_genres\<close>, the only caller of the two functions, returns the cache
  before it reaches them when it has no token or an empty one.
\<close>

theorem fetch_batches_count:
  assumes "token \<noteq> []" and "unique_nonempty ids \<noteq> []"
  shows
    "length (batches_issued (events_since w (snd (fetch_artists_genres ids token w))))
       = nat \<lceil>(of_nat (length (unique_nonempty ids)) :: rat) / 50\<rceil>
     \<and> (\<forall>b \<in> set (batches_issued (events_since w (snd (fetch_artists_genres ids token w)))).
           length b \<le> 50)
     \<and> concat (batches_issued (events_since w (snd (fetch_artists_genres ids token w))))
         = unique_nonempty ids
     \<and> length (batches_issued (events_since w (snd (fetch_track_artists ids token w))))
       = nat \<lceil>(of_nat (length (unique_nonempty ids)) :: rat) / 50\<rceil>
     \<and> (\<forall>b \<in> set (batches_issued (events_since w (snd (fetch_track_artists ids token w)))).
           length b \<le> 50)
     \<and> concat (batches_issued (events_since w (snd (fetch_track_artists ids token w))))
         = unique_nonempty ids"
proof -
  from assms(2) have "ids \<noteq> []" by (auto simp: unique_nonempty_def)
  with assms(1) show ?thesis
    using batches_from_count [of "unique_nonempty ids"]
    by (simp add: fetch_artists_genres_def fetch_track_artists_def fetch_loop_batches)
qed

theorem fetch_batches_count_witness:
  "''tok'' \<noteq> [] \<and> unique_nonempty [''a'', [], ''a'', ''b''] \<noteq> []
   \<and> batches_issued (events_since sample_world
        (snd (fetch_artists_genres [''a'', [], ''a'', ''b''] ''tok'' sample_world)))
       = [ [''a'', ''b''] ]
   \<and> nat \<lceil>(of_nat (length (unique_nonempty [''a'', [], ''a'', ''b''])) :: rat) / 50\<rceil> = 1
   \<and> length (batches_issued (events_since sample_world
        (snd (fetch_track_artists [''a'', [], ''a'', ''b''] ''tok'' sample_world)))) = 1"
proof -
  have tok: "''tok'' \<noteq> []" by simp
  have ids: "unique_nonempty [''a'', [], ''a'', ''b''] = [''a'', ''b'']"
    by (simp add: unique_nonempty_def)
  then have ne: "unique_nonempty [''a'', [], ''a'', ''b''] \<noteq> []" by simp
  have run: "batches_issued (events_since sample_world
        (snd (fetch_artists_genres [''a'', [], ''a'', ''b''] ''tok'' sample_world))) = [ [''a'', ''b''] ]"
    by (simp add: ids fetch_artists_genres_def fetch_loop.simps fetch_batch_def send_def
          settle_def finish_def raise_for_status_def emit_def events_since_def sample_world_def)
  have c: "nat \<lceil>(of_nat (length (unique_nonempty [''a'', [], ''a'', ''b''])) :: rat) / 50\<rceil> = 1"
    unfolding ceiling_div_50 by (simp add: ids)
  have "length (batches_issued (events_since sample_world
        (snd (fetch_track_artists [''a'', [], ''a'', ''b''] ''tok'' sample_world))))
      = nat \<lceil>(of_nat (length (unique_nonempty [''a'', [], ''a'', ''b''])) :: rat) / 50\<rceil>"
    using fetch_batches_count [OF tok ne, of sample_world] by blast
  then have t: "length (batches_issued (events_since sample_world
        (snd (fetch_track_artists [''a'', [], ''a'', ''b''] ''tok'' sample_world)))) = 1"
    by (simp only: c)
  from tok ne run c t show ?thesis by (intro conjI)
qed

text \<open>
  Both functions return at once, with no request, when they are given no token.
\<close>

lemma fetch_without_token:
  "fetch_artists_genres ids [] w = ([], w)"
  "fetch_track_artists ids [] w = ([], w)"
  by (simp_all add: fetch_artists_genres_def fetch_track_artists_def)

section \<open>Rate limiting and failed batches\<close>

lemma dict_set_keys: "fst ` set (dict_set d k v) = insert k (fst ` set d)"
  by (induction d k v rule: dict_set.induct) auto

lemma store_artists_keys: "fst ` set results \<subseteq> fst ` set (fst (store_artists es results))"
proof (induction es results rule: store_artists.induct)
  case (4 i genres es results)
  then show ?case by (simp add: dict_set_keys)
qed simp_all

lemma store_tracks_keys: "fst ` set results \<subseteq> fst ` set (fst (store_tracks es results))"
proof (induction es results rule: store_tracks.induct)
  case (3 i as es results)
  then show ?case
    by (cases "artist_refs as"; cases i) (auto simp: dict_set_keys)
qed simp_all

text \<open>
  One turn of the loop of either fetch function. On a 429 whose \<^verbatim>\<open>Retry-After\<close> is
  absent (5 seconds) or an integer that \<^verbatim>\<open>time.sleep\<close> accepts, the turn sleeps that
  long and requests the same batch once more, and the second answer decides the batch.
  On a 429 with any other \<^verbatim>\<open>Retry-After\<close> there is no sleep and no retry: the batch
  fails. Every other answer is decided at once, without retry. A failed batch prints
  its error, and a failure before the body is read leaves the results as they were.
\<close>

lemma fetch_batch_turn:
  fixes api :: "nat \<Rightarrow> string list \<Rightarrow> 'e outcome"
  assumes "fetch_batch api ep announce store batch results w = (results', w', ok)"
  shows
    "(\<forall>r d. api (sent w) batch = Response r \<and> status_code r = 429
            \<and> retry_delay (retry_after r) = Some d \<and> sleep_accepts w d \<longrightarrow>
        events_since w w'
          = Get ep batch False # (if announce then [Print (Rate_limited d)] else [])
              @ [Sleep (of_int d), Get ep batch True]
              @ (if ok then [] else [Print (Batch_error ep)])
        \<and> (results', ok)
          = (case api (Suc (sent w)) batch of
               ConnectionError \<Rightarrow> (results, False)
             | Response r2 \<Rightarrow> finish store r2 results))
     \<and> retry_delay Absent = Some 5
     \<and> (\<forall>r. api (sent w) batch = Response r \<and> status_code r = 429
            \<and> (\<forall>d. retry_delay (retry_after r) = Some d \<longrightarrow> \<not> sleep_accepts w d) \<longrightarrow>
        \<not> ok \<and> results' = results
        \<and> retries (events_since w w') = [] \<and> sleeps (events_since w w') = [])
     \<and> (\<forall>r. api (sent w) batch = Response r \<and> status_code r \<noteq> 429 \<longrightarrow>
        events_since w w' = Get ep batch False # (if ok then [] else [Print (Batch_error ep)])
        \<and> (results', ok) = finish store r results)
     \<and> (api (sent w) batch = ConnectionError \<longrightarrow>
        events_since w w' = [Get ep batch False, Print (Batch_error ep)]
        \<and> results' = results \<and> \<not> ok)
     \<and> (\<not> ok \<longrightarrow> last (events_since w w') = Print (Batch_error ep))
     \<and> (\<forall>r. raise_for_status r \<or> body r = None \<longrightarrow> finish store r results = (results, False))"
proof (intro conjI allI impI)
  fix r d
  assume "api (sent w) batch = Response r \<and> status_code r = 429
            \<and> retry_delay (retry_after r) = Some d \<and> sleep_accepts w d"
  with assms show "events_since w w'
          = Get ep batch False # (if announce then [Print (Rate_limited d)] else [])
              @ [Sleep (of_int d), Get ep batch True]
              @ (if ok then [] else [Print (Batch_error ep)])"
    and "(results', ok)
          = (case api (Suc (sent w)) batch of
               ConnectionError \<Rightarrow> (results, False)
             | Response r2 \<Rightarrow> finish store r2 results)"
    by (auto simp: prod_eq_iff fetch_batch_def send_def settle_def emit_def events_since_def Let_def
          split: outcome.splits if_splits)
next
  show "retry_delay Absent = Some 5" by (simp add: retry_delay_def)
next
  fix r
  assume a: "api (sent w) batch = Response r \<and> status_code r = 429
            \<and> (\<forall>d. retry_delay (retry_after r) = Some d \<longrightarrow> \<not> sleep_accepts w d)"
  with assms show "\<not> ok" and "results' = results"
    and "retries (events_since w w') = []" and "sleeps (events_since w w') = []"
    by (auto simp: prod_eq_iff fetch_batch_def send_def settle_def emit_def events_since_def Let_def
          retries_def sleeps_def List.map_filter_def
          split: outcome.splits if_splits option.splits)
next
  fix r
  assume "api (sent w) batch = Response r \<and> status_code r \<noteq> 429"
  with assms show "events_since w w' = Get ep batch False # (if ok then [] else [Print (Batch_error ep)])"
    and "(results', ok) = finish store r results"
    by (auto simp: prod_eq_iff fetch_batch_def send_def settle_def emit_def events_since_def)
next
  assume "api (sent w) batch = ConnectionError"
  with assms show "events_since w w' = [Get ep batch False, Print (Batch_error ep)]"
    and "results' = results" and "\<not> ok"
    by (auto simp: prod_eq_iff fetch_batch_def send_def settle_def emit_def events_since_def)
next
  assume "\<not> ok"
  with assms show "last (events_since w w') = Print (Batch_error ep)"
    by (auto simp: prod_eq_iff fetch_batch_def send_def settle_def emit_def events_since_def Let_def
          split: outcome.splits if_splits option.splits)
next
  fix r :: "'e response"
  assume "raise_for_status r \<or> body r = None"
  then show "finish store r results = (results, False)"
    by (auto simp: finish_def)
qed

lemma fetch_batch_turn_retry_after_2:
  "fetch_batch (artists_api rate_limited_world) Artists_endpoint True store_artists [''a''] []
       rate_limited_world
     = ([(''a'', [''pop''])],
        rate_limited_world
          \<lparr> sent := 2,
            trace := [Get Artists_endpoint [''a''] False, Print (Rate_limited 2), Sleep 2,
                      Get Artists_endpoint [''a''] True] \<rparr>,
        True)
   \<and> artists_api rate_limited_world (sent rate_limited_world) [''a'']
       = Response \<lparr> status_code = 429, retry_after = Seconds 2, body = None \<rparr>
   \<and> retry_delay (Seconds 2) = Some 2 \<and> sleep_accepts rate_limited_world 2
   \<and> events_since rate_limited_world
        (rate_limited_world
          \<lparr> sent := 2,
            trace := [Get Artists_endpoint [''a''] False, Print (Rate_limited 2), Sleep 2,
                      Get Artists_endpoint [''a''] True] \<rparr>)
       = [Get Artists_endpoint [''a''] False, Print (Rate_limited 2), Sleep 2,
          Get Artists_endpoint [''a''] True]"
proof -
  have step: "fetch_batch (artists_api rate_limited_world) Artists_endpoint True store_artists [''a''] []
       rate_limited_world
     = ([(''a'', [''pop''])],
        rate_limited_world
          \<lparr> sent := 2,
            trace := [Get Artists_endpoint [''a''] False, Print (Rate_limited 2), Sleep 2,
                      Get Artists_endpoint [''a''] True] \<rparr>,
        True)"
    by (simp add: fetch_batch_def send_def settle_def finish_def raise_for_status_def retry_delay_def
          emit_def rate_limited_world_def sample_world_def Let_def numeral_2_eq_2)
  have first: "artists_api rate_limited_world (sent rate_limited_world) [''a'']
       = Response \<lparr> status_code = 429, retry_after = Seconds 2, body = None \<rparr>"
    by (simp add: rate_limited_world_def sample_world_def)
  have delay: "retry_delay (Seconds 2) = Some 2" "sleep_accepts rate_limited_world 2"
    by (simp_all add: retry_delay_def rate_limited_world_def sample_world_def)
  from fetch_batch_turn [OF step] first delay
  have "events_since rate_limited_world
        (rate_limited_world
          \<lparr> sent := 2,
            trace := [Get Artists_endpoint [''a''] False, Print (Rate_limited 2), Sleep 2,
                      Get Artists_endpoint [''a''] True] \<rparr>)
       = [Get Artists_endpoint [''a''] False, Print (Rate_limited 2), Sleep 2,
          Get Artists_endpoint [''a''] True]"
    by simp
  with step first delay show ?thesis by (intro conjI)
qed

text \<open>
  The run. A store that never drops a key makes a turn that never drops one, and so
  a run: what the results hold when a batch is entered, and what that batch has added
  to them, whether it then failed or not, is in the results the run returns. The run
  is a total function: every failure of a batch is a branch of \<open>fetch_batch\<close>, after
  which the loop goes on to the next batch (lemma \<open>fetch_loop_batches\<close>).
\<close>

lemma finish_keeps_keys:
  assumes "\<And>es r. keys r \<subseteq> keys (fst (store es r))"
  shows "keys results \<subseteq> keys (fst (finish store r results))"
  using assms by (simp add: finish_def split: option.splits)

lemma fetch_batch_keeps_keys:
  assumes "\<And>es r. keys r \<subseteq> keys (fst (store es r))"
    and "fetch_batch api ep announce store batch results w = (results', w', ok)"
  shows "keys results \<subseteq> keys results'"
proof -
  have "results' = results \<or> (\<exists>r. results' = fst (finish store r results))"
    using assms(2)
    by (auto simp: fetch_batch_def send_def settle_def Let_def
          split: outcome.splits if_splits option.splits)
  then show ?thesis
    using finish_keeps_keys [where keys = keys and store = store, OF assms(1)] by auto
qed

lemma fetch_loop_keeps_keys:
  assumes "\<And>es r. keys r \<subseteq> keys (fst (store es r))"
  shows "keys results \<subseteq> keys (fst (fetch_loop api ep announce store ids i results w))"
  using assms
proof (induction api ep announce store ids i results w rule: fetch_loop.induct)
  case (1 api ep announce store ids i results w)
  show ?case
  proof (cases "i < length ids")
    case False
    then show ?thesis by (simp add: fetch_loop.simps [of _ _ _ _ ids i])
  next
    case True
    obtain results' w' ok where
      step: "fetch_batch api ep announce store (take 50 (drop i ids)) results w = (results', w', ok)"
      by (cases "fetch_batch api ep announce store (take 50 (drop i ids)) results w") auto
    have "keys results \<subseteq> keys results'"
      using "1.prems" step by (rule fetch_batch_keeps_keys)
    also have "keys results' \<subseteq> keys (fst (fetch_loop api ep announce store ids (i + 50) results'
                 (if ok \<and> i + 50 < length ids then emit (Sleep (1 / 10)) w' else w')))"
      using "1.IH" [OF True step [symmetric] refl] "1.prems" by blast
    also have "fetch_loop api ep announce store ids (i + 50) results'
                 (if ok \<and> i + 50 < length ids then emit (Sleep (1 / 10)) w' else w')
               = fetch_loop api ep announce store ids i results w"
      using True step by (simp add: fetch_loop.simps [of _ _ _ _ ids i])
    finally show ?thesis .
  qed
qed

lemma fetch_loop_keeps_batch:
  assumes "\<And>es r. keys r \<subseteq> keys (fst (store es r))"
    and "i < length ids"
    and "fetch_batch api ep announce store (take 50 (drop i ids)) results w = (results', w', ok)"
  shows "keys results' \<subseteq> keys (fst (fetch_loop api ep announce store ids i results w))"
proof -
  have "fetch_loop api ep announce store ids i results w
          = fetch_loop api ep announce store ids (i + 50) results'
              (if ok \<and> i + 50 < length ids then emit (Sleep (1 / 10)) w' else w')"
    using assms(2,3) by (simp add: fetch_loop.simps [of _ _ _ _ ids i])
  then show ?thesis
    using fetch_loop_keeps_keys [where keys = keys and store = store, OF assms(1)] by simp
qed

lemma fetch_runs_keep_results:
  "fst ` set results \<subseteq> fst ` set (fst (fetch_loop api ep announce store_artists ids i results w))"
  "fst ` set track_results
     \<subseteq> fst ` set (fst (fetch_loop track_api ep announce store_tracks ids i track_results w))"
  by (rule fetch_loop_keeps_keys, rule store_artists_keys)
     (rule fetch_loop_keeps_keys, rule store_tracks_keys)

text \<open>
  Claim C8 fails on a 429 whose \<^verbatim>\<open>Retry-After\<close> is not an integer, such as an HTTP
  date: \<^verbatim>\<open>int\<close> raises inside the \<^verbatim>\<open>try\<close>, and the batch is given up at once, with
  no sleep and no retry, by either function. With \<^verbatim>\<open>Retry-After: 2\<close> the same run
  sleeps 2 seconds, asks once more and returns what the second answer holds.
\<close>

theorem retry_after_date_not_retried:
  "artists_api http_date_world (sent http_date_world) [''a'']
     = Response \<lparr> status_code = 429, retry_after = Not_an_integer, body = None \<rparr>
   \<and> events_since http_date_world (snd (fetch_artists_genres [''a''] ''tok'' http_date_world))
       = [Get Artists_endpoint [''a''] False, Print (Batch_error Artists_endpoint)]
   \<and> sleeps (events_since http_date_world (snd (fetch_artists_genres [''a''] ''tok'' http_date_world)))
       = []
   \<and> retries (events_since http_date_world (snd (fetch_artists_genres [''a''] ''tok'' http_date_world)))
       = []
   \<and> events_since http_date_world
        (snd (fetch_track_artists [''t''] ''tok''
               (http_date_world\<lparr> tracks_api := \<lambda>n ids.
                   Response \<lparr> status_code = 429, retry_after = Not_an_integer, body = None \<rparr> \<rparr>)))
       = [Get Tracks_endpoint [''t''] False, Print (Batch_error Tracks_endpoint)]
   \<and> events_since rate_limited_world (snd (fetch_artists_genres [''a''] ''tok'' rate_limited_world))
       = [Get Artists_endpoint [''a''] False, Print (Rate_limited 2), Sleep 2,
          Get Artists_endpoint [''a''] True]
   \<and> fst (fetch_artists_genres [''a''] ''tok'' rate_limited_world) = [(''a'', [''pop''])]"
  by (simp add: fetch_artists_genres_def fetch_track_artists_def unique_nonempty_def
        fetch_loop.simps fetch_batch_def send_def settle_def finish_def raise_for_status_def
        retry_delay_def emit_def events_since_def sleeps_def retries_def
        List.map_filter_def http_date_world_def rate_limited_world_def sample_world_def Let_def)

end
